theory Spec2Isabelle
  imports Main "HOL-Library.Word" "HOL-Library.Option_ord"
begin

section \<open>JavaScript strings\<close>

text \<open>
  A JavaScript string is a sequence of UTF-16 code units. The regular expressions of
  \<^verbatim>\<open>cs2-chat-translator.js\<close> carry no \<^verbatim>\<open>u\<close> flag, so they too work on code units.
  \<open>js\<close> turns an ASCII literal of the theory into such a string.
\<close>

type_synonym cu = "16 word"
type_synonym jsstring = "cu list"

definition js :: "string \<Rightarrow> jsstring" where
  "js s = map of_char s"

text \<open>
  The class \<^verbatim>\<open>\s\<close> of a regular expression and the characters removed by
  \<^verbatim>\<open>String.prototype.trim\<close> are the same set: WhiteSpace and LineTerminator of ECMAScript.
\<close>

definition isWhiteSpace :: "cu \<Rightarrow> bool" where
  "isWhiteSpace c \<longleftrightarrow>
     c = 9 \<or> c = 10 \<or> c = 11 \<or> c = 12 \<or> c = 13 \<or> c = 32 \<or> c = 0xA0 \<or> c = 0x1680 \<or>
     (0x2000 \<le> c \<and> c \<le> 0x200A) \<or> c = 0x2028 \<or> c = 0x2029 \<or> c = 0x202F \<or>
     c = 0x205F \<or> c = 0x3000 \<or> c = 0xFEFF"

text \<open>The dot of a regular expression (no \<^verbatim>\<open>s\<close> flag) matches everything but these.\<close>

definition isLineTerminator :: "cu \<Rightarrow> bool" where
  "isLineTerminator c \<longleftrightarrow> c = 10 \<or> c = 13 \<or> c = 0x2028 \<or> c = 0x2029"

text \<open>The word characters of \<^verbatim>\<open>\b\<close>: \<^verbatim>\<open>[A-Za-z0-9_]\<close>.\<close>

definition isWordChar :: "cu \<Rightarrow> bool" where
  "isWordChar c \<longleftrightarrow>
     (48 \<le> c \<and> c \<le> 57) \<or> (65 \<le> c \<and> c \<le> 90) \<or> c = 95 \<or> (97 \<le> c \<and> c \<le> 122)"

text \<open>
  \<^verbatim>\<open>\b\<close> between the text before and the text after a position: exactly one of the two
  neighbouring characters is a word character (a missing neighbour is none).
\<close>

definition wordBoundary :: "jsstring \<Rightarrow> jsstring \<Rightarrow> bool" where
  "wordBoundary before after \<longleftrightarrow>
     (before \<noteq> [] \<and> isWordChar (last before)) \<noteq> (after \<noteq> [] \<and> isWordChar (hd after))"

text \<open>
  \<^verbatim>\<open>toLowerCase\<close> and \<^verbatim>\<open>toUpperCase\<close> on the ASCII letters; every other code unit is kept.
  The catalogue, the command keywords and the codes compared against (\<^verbatim>\<open>"ru"\<close>,
  \<^verbatim>\<open>"en"\<close>) are ASCII, and no code unit outside \<^verbatim>\<open>A-Z\<close> lowers to an ASCII letter
  of those.
\<close>

definition lowerCu :: "cu \<Rightarrow> cu" where
  "lowerCu c = (if 65 \<le> c \<and> c \<le> 90 then c + 32 else c)"

definition upperCu :: "cu \<Rightarrow> cu" where
  "upperCu c = (if 97 \<le> c \<and> c \<le> 122 then c - 32 else c)"

definition toLowerCase :: "jsstring \<Rightarrow> jsstring" where
  "toLowerCase s = map lowerCu s"

definition toUpperCase :: "jsstring \<Rightarrow> jsstring" where
  "toUpperCase s = map upperCu s"

definition trim :: "jsstring \<Rightarrow> jsstring" where
  "trim s = rev (dropWhile isWhiteSpace (rev (dropWhile isWhiteSpace s)))"

text \<open>\<^verbatim>\<open>s.split(" ")\<close>: the separator is the single code unit U+0020.\<close>

fun split_space :: "jsstring \<Rightarrow> jsstring list" where
  "split_space [] = [[]]"
| "split_space (c # cs) =
     (if c = 32 then [] # split_space cs
      else (case split_space cs of
              [] \<Rightarrow> [[c]]
            | t # ts \<Rightarrow> (c # t) # ts))"

text \<open>\<^verbatim>\<open>parts.join(" ")\<close>\<close>

fun join_space :: "jsstring list \<Rightarrow> jsstring" where
  "join_space [] = []"
| "join_space [t] = t"
| "join_space (t # ts) = t @ 32 # join_space ts"

text \<open>
  \<^verbatim>\<open>a || b\<close> on a possibly undefined string: \<^verbatim>\<open>undefined\<close> and the empty string are falsy.
\<close>

definition orElse :: "jsstring option \<Rightarrow> jsstring \<Rightarrow> jsstring" where
  "orElse a b = (case a of None \<Rightarrow> b | Some s \<Rightarrow> if s = [] then b else s)"

text \<open>
  \<^verbatim>\<open>s.replace(/[...]+/g, " ")\<close>: every maximal run of characters of the class becomes one
  space.
\<close>

function replace_runs :: "(cu \<Rightarrow> bool) \<Rightarrow> jsstring \<Rightarrow> jsstring" where
  "replace_runs P [] = []"
| "replace_runs P (c # cs) =
     (if P c then 32 # replace_runs P (dropWhile P cs) else c # replace_runs P cs)"
  by pat_completeness auto
termination
  by (relation "measure (\<lambda>(P, s). length s)")
     (auto simp: less_Suc_eq_le length_dropWhile_le)

section \<open>The command patterns\<close>

text \<open>
  Under the \<^verbatim>\<open>i\<close> flag without \<^verbatim>\<open>u\<close>, a letter of the pattern matches its two ASCII
  cases only, and \<^verbatim>\<open>[a-z_]\<close> matches \<^verbatim>\<open>[A-Za-z_]\<close>.
\<close>

definition isCodeChar :: "cu \<Rightarrow> bool" where
  "isCodeChar c \<longleftrightarrow> (65 \<le> c \<and> c \<le> 90) \<or> (97 \<le> c \<and> c \<le> 122) \<or> c = 95"

text \<open>\<^verbatim>\<open>/^_tl\b/i.test(message)\<close>\<close>

definition re_tl :: "jsstring \<Rightarrow> bool" where
  "re_tl m \<longleftrightarrow>
     (case m of
        a # b # c # rest \<Rightarrow>
          a = 95 \<and> lowerCu b = 116 \<and> lowerCu c = 108 \<and> wordBoundary [a, b, c] rest
      | _ \<Rightarrow> False)"

text \<open>
  \<^verbatim>\<open>/^tm_[a-z_]{2,5}\b/i.test(message)\<close>: the greedy quantifier tries five characters
  first and gives characters back down to two.
\<close>

definition re_tm :: "jsstring \<Rightarrow> bool" where
  "re_tm m \<longleftrightarrow>
     (case m of
        a # b # c # rest \<Rightarrow>
          lowerCu a = 116 \<and> lowerCu b = 109 \<and> c = 95 \<and>
          list_ex (\<lambda>k. k \<le> length rest \<and> list_all isCodeChar (take k rest) \<and>
                       wordBoundary (take k rest) (drop k rest)) [5, 4, 3, 2]
      | _ \<Rightarrow> False)"

text \<open>\<^verbatim>\<open>/^code[_\s]/i.test(message)\<close>\<close>

definition re_code :: "jsstring \<Rightarrow> bool" where
  "re_code m \<longleftrightarrow>
     (case m of
        a # b # c # d # e # rest \<Rightarrow>
          lowerCu a = 99 \<and> lowerCu b = 111 \<and> lowerCu c = 100 \<and> lowerCu d = 101 \<and>
          (e = 95 \<or> isWhiteSpace e)
      | _ \<Rightarrow> False)"

text \<open>\<^verbatim>\<open>/^[.\s]+$/.test(message)\<close>\<close>

definition re_dots :: "jsstring \<Rightarrow> bool" where
  "re_dots m \<longleftrightarrow> m \<noteq> [] \<and> list_all (\<lambda>c. c = 46 \<or> isWhiteSpace c) m"

text \<open>
  \<^verbatim>\<open>/^tm_[a-z_]{2,5}\b|^_tl\b|^code[_\s]/i.test(message)\<close>, the test of \<^verbatim>\<open>handleLine\<close>, and
  \<^verbatim>\<open>/^(_tl\b|tm_[a-z_]{2,5}\b|code[_\s])/i.test(message)\<close>, the one of
  \<^verbatim>\<open>autoTranslateToConsole\<close>: the same three alternatives.
\<close>

definition re_command :: "jsstring \<Rightarrow> bool" where
  "re_command m \<longleftrightarrow> re_tm m \<or> re_tl m \<or> re_code m"

text \<open>
  \<^verbatim>\<open>message.match(/^code[_\s]+(.+)$/i)\<close>, giving the capture \<^verbatim>\<open>m[1]\<close>: the separator run
  is greedy and gives characters back, down to one, until the rest is a non-empty text without
  line terminator.
\<close>

definition isSep :: "cu \<Rightarrow> bool" where
  "isSep c \<longleftrightarrow> c = 95 \<or> isWhiteSpace c"

definition re_code_query :: "jsstring \<Rightarrow> jsstring option" where
  "re_code_query m =
     (case m of
        a # b # c # d # rest \<Rightarrow>
          if lowerCu a = 99 \<and> lowerCu b = 111 \<and> lowerCu c = 100 \<and> lowerCu d = 101 then
            map_option (\<lambda>k. drop k rest)
              (find (\<lambda>k. drop k rest \<noteq> [] \<and> list_all (\<lambda>x. \<not> isLineTerminator x) (drop k rest))
                    (rev [1 ..< Suc (length (takeWhile isSep rest))]))
          else None
      | _ \<Rightarrow> None)"

section \<open>The language catalogue\<close>

text \<open>
  \<^verbatim>\<open>LANG_MAP\<close>, in the order of the object literal, which is the order of
  \<^verbatim>\<open>Object.entries\<close> (no key is an integer index).
\<close>

definition LANG_MAP :: "(jsstring \<times> jsstring) list" where
  "LANG_MAP =
    [(js ''af'', js ''Afrikaans''), (js ''sq'', js ''Albanian''), (js ''am'', js ''Amharic''),
     (js ''ar'', js ''Arabic''), (js ''hy'', js ''Armenian''), (js ''az'', js ''Azerbaijani''),
     (js ''eu'', js ''Basque''), (js ''be'', js ''Belarusian''), (js ''bn'', js ''Bengali''),
     (js ''bs'', js ''Bosnian''), (js ''bg'', js ''Bulgarian''), (js ''ca'', js ''Catalan''),
     (js ''ceb'', js ''Cebuano''), (js ''ny'', js ''Chichewa''), (js ''zh'', js ''Chinese''),
     (js ''zh_cn'', js ''Chinese (Simplified)''), (js ''zh_tw'', js ''Chinese (Traditional)''), (js ''co'', js ''Corsican''),
     (js ''hr'', js ''Croatian''), (js ''cs'', js ''Czech''), (js ''da'', js ''Danish''),
     (js ''nl'', js ''Dutch''), (js ''en'', js ''English''), (js ''eo'', js ''Esperanto''),
     (js ''et'', js ''Estonian''), (js ''tl'', js ''Filipino''), (js ''fi'', js ''Finnish''),
     (js ''fr'', js ''French''), (js ''fy'', js ''Frisian''), (js ''gl'', js ''Galician''),
     (js ''ka'', js ''Georgian''), (js ''de'', js ''German''), (js ''el'', js ''Greek''),
     (js ''gu'', js ''Gujarati''), (js ''ht'', js ''Haitian Creole''), (js ''ha'', js ''Hausa''),
     (js ''haw'', js ''Hawaiian''), (js ''he'', js ''Hebrew''), (js ''hi'', js ''Hindi''),
     (js ''hmn'', js ''Hmong''), (js ''hu'', js ''Hungarian''), (js ''is'', js ''Icelandic''),
     (js ''ig'', js ''Igbo''), (js ''id'', js ''Indonesian''), (js ''ga'', js ''Irish''),
     (js ''it'', js ''Italian''), (js ''ja'', js ''Japanese''), (js ''jw'', js ''Javanese''),
     (js ''kn'', js ''Kannada''), (js ''kk'', js ''Kazakh''), (js ''km'', js ''Khmer''),
     (js ''rw'', js ''Kinyarwanda''), (js ''ko'', js ''Korean''), (js ''ku'', js ''Kurdish (Kurmanji)''),
     (js ''ky'', js ''Kyrgyz''), (js ''lo'', js ''Lao''), (js ''la'', js ''Latin''),
     (js ''lv'', js ''Latvian''), (js ''lt'', js ''Lithuanian''), (js ''lb'', js ''Luxembourgish''),
     (js ''mk'', js ''Macedonian''), (js ''mg'', js ''Malagasy''), (js ''ms'', js ''Malay''),
     (js ''ml'', js ''Malayalam''), (js ''mt'', js ''Maltese''), (js ''mi'', js ''Maori''),
     (js ''mr'', js ''Marathi''), (js ''mn'', js ''Mongolian''), (js ''my'', js ''Myanmar (Burmese)''),
     (js ''ne'', js ''Nepali''), (js ''no'', js ''Norwegian''), (js ''or'', js ''Odia (Oriya)''),
     (js ''ps'', js ''Pashto''), (js ''fa'', js ''Persian''), (js ''pl'', js ''Polish''),
     (js ''pt'', js ''Portuguese''), (js ''pa'', js ''Punjabi''), (js ''ro'', js ''Romanian''),
     (js ''ru'', js ''Russian''), (js ''sm'', js ''Samoan''), (js ''gd'', js ''Scots Gaelic''),
     (js ''sr'', js ''Serbian''), (js ''st'', js ''Sesotho''), (js ''sn'', js ''Shona''),
     (js ''sd'', js ''Sindhi''), (js ''si'', js ''Sinhala''), (js ''sk'', js ''Slovak''),
     (js ''sl'', js ''Slovenian''), (js ''so'', js ''Somali''), (js ''es'', js ''Spanish''),
     (js ''su'', js ''Sundanese''), (js ''sw'', js ''Swahili''), (js ''sv'', js ''Swedish''),
     (js ''tg'', js ''Tajik''), (js ''ta'', js ''Tamil''), (js ''tt'', js ''Tatar''),
     (js ''te'', js ''Telugu''), (js ''th'', js ''Thai''), (js ''tr'', js ''Turkish''),
     (js ''tk'', js ''Turkmen''), (js ''uk'', js ''Ukrainian''), (js ''ur'', js ''Urdu''),
     (js ''ug'', js ''Uyghur''), (js ''uz'', js ''Uzbek''), (js ''vi'', js ''Vietnamese''),
     (js ''cy'', js ''Welsh''), (js ''xh'', js ''Xhosa''), (js ''yi'', js ''Yiddish''),
     (js ''yo'', js ''Yoruba''), (js ''zu'', js ''Zulu'')]"

record candidate =
  c_code :: jsstring
  c_name :: jsstring
  c_aliases :: "jsstring list"

text \<open>
  \<^verbatim>\<open>name.replace(/\s*\([^)]*\)\s*/g, "")\<close>. \<open>paren_group_at\<close> matches the pattern at the
  head of the text and gives what follows the match; the replacement takes the leftmost match
  and goes on behind it.
\<close>

definition paren_group_at :: "jsstring \<Rightarrow> jsstring option" where
  "paren_group_at s =
     (case dropWhile isWhiteSpace s of
        [] \<Rightarrow> None
      | c # s2 \<Rightarrow>
          if c \<noteq> 40 then None
          else (case dropWhile (\<lambda>x. x \<noteq> 41) s2 of
                  [] \<Rightarrow> None
                | d # s4 \<Rightarrow> Some (dropWhile isWhiteSpace s4)))"

function remove_paren_groups :: "jsstring \<Rightarrow> jsstring" where
  "remove_paren_groups s =
     (case paren_group_at s of
        Some rest \<Rightarrow> remove_paren_groups rest
      | None \<Rightarrow> (case s of [] \<Rightarrow> [] | c # cs \<Rightarrow> c # remove_paren_groups cs))"
  by pat_completeness auto
termination
proof (relation "measure length")
  fix s rest
  assume "paren_group_at s = Some rest"
  then obtain c s2 d s4 where
    a: "dropWhile isWhiteSpace s = c # s2" and
    b: "dropWhile (\<lambda>x. x \<noteq> 41) s2 = d # s4" and
    c: "rest = dropWhile isWhiteSpace s4"
    by (auto simp: paren_group_at_def split: list.splits if_splits)
  have "length rest \<le> length s4"
    unfolding c by (rule length_dropWhile_le)
  also have "length s4 < length (dropWhile (\<lambda>x. x \<noteq> 41) s2)"
    unfolding b by simp
  also have "\<dots> \<le> length s2"
    by (rule length_dropWhile_le)
  also have "length s2 < length (dropWhile isWhiteSpace s)"
    unfolding a by simp
  also have "\<dots> \<le> length s"
    by (rule length_dropWhile_le)
  finally show "(rest, s) \<in> measure length" by simp
qed auto

text \<open>\<^verbatim>\<open>Set.prototype.add\<close> on a set kept in insertion order.\<close>

definition set_add :: "jsstring list \<Rightarrow> jsstring \<Rightarrow> jsstring list" where
  "set_add xs a = (if a \<in> set xs then xs else xs @ [a])"

definition extra_aliases :: "jsstring \<Rightarrow> jsstring list" where
  "extra_aliases code =
     (if code = js ''zh_cn'' then [js ''simplified chinese'', js ''chinese simplified''] else []) @
     (if code = js ''zh_tw'' then [js ''traditional chinese'', js ''chinese traditional''] else []) @
     (if code = js ''ga'' then [js ''irish gaelic''] else []) @
     (if code = js ''gd'' then [js ''scottish gaelic'', js ''scots gaelic''] else []) @
     (if code = js ''jw'' then [js ''javanese''] else []) @
     (if code = js ''my'' then [js ''burmese''] else []) @
     (if code = js ''tl'' then [js ''tagalog''] else []) @
     (if code = js ''pt'' then [js ''brazilian portuguese'', js ''brasilianisch''] else []) @
     (if code = js ''he'' then [js ''ivrit''] else [])"

definition lang_candidate :: "jsstring \<times> jsstring \<Rightarrow> candidate" where
  "lang_candidate e =
     (case e of (code, name) \<Rightarrow>
        let base = name;
            bare = trim (remove_paren_groups name);
            aliases = foldl set_add [] [toLowerCase base, toLowerCase bare, toLowerCase code]
        in \<lparr>c_code = code, c_name = base,
            c_aliases = foldl set_add aliases (extra_aliases code)\<rparr>)"

definition buildLangCandidates :: "candidate list" where
  "buildLangCandidates = map lang_candidate LANG_MAP"

section \<open>The language resolver\<close>

text \<open>
  \<^verbatim>\<open>normalizeQueryLoose\<close>: lower case, runs of \<^verbatim>\<open>_\<close> and \<^verbatim>\<open>-\<close> to one space, each
  parenthesis to a space, runs of white space to one space, trim.
\<close>

definition normalizeQueryLoose :: "jsstring \<Rightarrow> jsstring" where
  "normalizeQueryLoose s =
     trim (replace_runs isWhiteSpace
       (map (\<lambda>c. if c = 40 \<or> c = 41 then 32 else c)
         (replace_runs (\<lambda>c. c = 95 \<or> c = 45) (toLowerCase s))))"

text \<open>
  A score is a JavaScript number; \<open>None\<close> stands for \<^verbatim>\<open>-Infinity\<close>, the value of
  \<^verbatim>\<open>Math.max()\<close> without arguments, and is below every \<open>Some n\<close>.
  \<^verbatim>\<open>fuzz.ratio\<close> of the fuzzball package is a parameter of the resolver.
\<close>

type_synonym score = "int option"

record lang_match =
  m_code :: jsstring
  m_name :: jsstring
  m_score :: score

fun math_max :: "int list \<Rightarrow> score" where
  "math_max [] = None"
| "math_max (x # xs) = max (Some x) (math_max xs)"

definition alias_score :: "(jsstring \<Rightarrow> jsstring \<Rightarrow> int) \<Rightarrow> jsstring \<Rightarrow> candidate \<Rightarrow> score" where
  "alias_score ratio q c = math_max (map (ratio q) (c_aliases c))"

text \<open>The first loop of \<^verbatim>\<open>bestLangMatch\<close>: the fast path.\<close>

fun exact_pass :: "jsstring \<Rightarrow> candidate list \<Rightarrow> lang_match option" where
  "exact_pass q [] = None"
| "exact_pass q (c # cs) =
     (if list_ex (\<lambda>a. a = q) (c_aliases c)
      then Some \<lparr>m_code = c_code c, m_name = c_name c, m_score = Some 100\<rparr>
      else exact_pass q cs)"

text \<open>The second loop, with the variable \<^verbatim>\<open>best\<close> as accumulator.\<close>

fun fuzzy_pass ::
  "(jsstring \<Rightarrow> jsstring \<Rightarrow> int) \<Rightarrow> jsstring \<Rightarrow> candidate list \<Rightarrow> lang_match option \<Rightarrow> lang_match option"
where
  "fuzzy_pass ratio q [] best = best"
| "fuzzy_pass ratio q (c # cs) best =
     (let score = alias_score ratio q c;
          new = \<lparr>m_code = c_code c, m_name = c_name c, m_score = score\<rparr>
      in fuzzy_pass ratio q cs
           (case best of
              None \<Rightarrow> Some new
            | Some b \<Rightarrow> if m_score b < score then Some new else best))"

text \<open>
  \<^verbatim>\<open>bestLangMatch\<close>: \<open>bestLangMatchFrom\<close> is its body behind the first line, on the
  normalized query \<^verbatim>\<open>q\<close>.
\<close>

definition bestLangMatchFrom ::
  "(jsstring \<Rightarrow> jsstring \<Rightarrow> int) \<Rightarrow> jsstring \<Rightarrow> lang_match option"
where
  "bestLangMatchFrom ratio q =
     (if q = [] then None
      else (case exact_pass q buildLangCandidates of
              Some m \<Rightarrow> Some m
            | None \<Rightarrow>
                (case fuzzy_pass ratio q buildLangCandidates None of
                   None \<Rightarrow> None
                 | Some best \<Rightarrow> if Some 55 \<le> m_score best then Some best else None)))"

definition bestLangMatch :: "(jsstring \<Rightarrow> jsstring \<Rightarrow> int) \<Rightarrow> jsstring \<Rightarrow> lang_match option" where
  "bestLangMatch ratio query = bestLangMatchFrom ratio (normalizeQueryLoose query)"

section \<open>The translation resolver\<close>

text \<open>
  The translation capability (\<^verbatim>\<open>google-translate-api-x\<close>) is a parameter: from the text,
  the forced source language (\<^verbatim>\<open>from\<close>, when given) and the target language it either fails
  with an \<^verbatim>\<open>Error\<close> carrying a message, or gives \<^verbatim>\<open>res.text\<close> and
  \<^verbatim>\<open>res.from?.language?.iso\<close>, which may be undefined.
\<close>

datatype js_error = Error jsstring

type_synonym translator =
  "jsstring \<Rightarrow> jsstring option \<Rightarrow> jsstring \<Rightarrow> js_error + (jsstring \<times> jsstring option)"

record translation =
  r_text :: jsstring
  r_iso :: "jsstring option"
  r_forcedFrom :: "jsstring option"

text \<open>The captured channel token: \<^verbatim>\<open>"CT"\<close>, \<^verbatim>\<open>"T"\<close> or \<^verbatim>\<open>"ALL"\<close>.\<close>

datatype team = Team_CT | Team_T | Team_ALL

text \<open>
  What a run does to the outside, in order: calls of the translation capability, deliveries to
  the outbound sink (\<^verbatim>\<open>writeChatCfg\<close>, whose escaping and file write are the sink's, and the
  key press scheduled by \<^verbatim>\<open>setTimeout(pressBindKey, 150)\<close>), and console lines, one per call
  of \<^verbatim>\<open>console.log\<close>, kept as data rather than as coloured text.
\<close>

datatype console_line =
    ChatLine team jsstring jsstring
  | CfgLine bool jsstring
  | WarnLine jsstring
  | CodeInfo jsstring score
  | TmSent jsstring
  | TlSent jsstring
  | KVLine jsstring jsstring
  | AutoLine team jsstring jsstring jsstring jsstring

datatype effect =
    Translate jsstring "jsstring option" jsstring
  | WriteCfg jsstring bool
  | PressKeyLater
  | Console console_line

definition AUTO_TRANSLATE :: bool where
  "AUTO_TRANSLATE = True"

definition AUTO_TRANSLATE_TARGET :: jsstring where
  "AUTO_TRANSLATE_TARGET = js ''en''"

definition PREFER_RU_FOR_CYRILLIC :: bool where
  "PREFER_RU_FOR_CYRILLIC = True"

text \<open>\<^verbatim>\<open>CYRILLIC_REGEX.test(text)\<close>, the class being U+0400 to U+04FF.\<close>

definition CYRILLIC_REGEX :: "jsstring \<Rightarrow> bool" where
  "CYRILLIC_REGEX s = list_ex (\<lambda>c. 0x400 \<le> c \<and> c \<le> 0x4FF) s"

definition writeChatCfg :: "jsstring \<Rightarrow> bool \<Rightarrow> effect list" where
  "writeChatCfg msg isTeam = [WriteCfg msg isTeam, Console (CfgLine isTeam msg)]"

text \<open>
  \<^verbatim>\<open>langName\<close>: \<^verbatim>\<open>LANG_MAP[key] || key.toUpperCase() || "UNKNOWN"\<close>, on the own keys of
  \<^verbatim>\<open>LANG_MAP\<close>.
\<close>

definition langName :: "jsstring \<Rightarrow> jsstring" where
  "langName isoCode =
     (let key = toLowerCase (orElse (Some isoCode) [])
      in orElse (map_of LANG_MAP key) (orElse (Some (toUpperCase key)) (js ''UNKNOWN'')))"

text \<open>
  \<^verbatim>\<open>(res.__forcedFrom || res.from?.language?.iso || "unknown").toLowerCase()\<close>, as written in
  \<^verbatim>\<open>originalLangReadable\<close> and in \<^verbatim>\<open>autoTranslateToConsole\<close>.
\<close>

definition sourceIso :: "translation \<Rightarrow> jsstring" where
  "sourceIso res = toLowerCase (orElse (r_forcedFrom res) (orElse (r_iso res) (js ''unknown'')))"

definition originalLangReadable :: "translation \<Rightarrow> jsstring" where
  "originalLangReadable res = langName (sourceIso res)"

text \<open>
  \<^verbatim>\<open>smartTranslate\<close>. The result is the trace and either the error raised to the caller or the
  value returned; the two \<^verbatim>\<open>try\<close> blocks are the two case distinctions on a failed call.
\<close>

definition smartTranslate ::
  "translator \<Rightarrow> jsstring \<Rightarrow> jsstring \<Rightarrow> effect list \<times> (js_error + translation)"
where
  "smartTranslate translate text toLang =
     (case translate text None toLang of
        Inl err \<Rightarrow>
          (case err of Error msg \<Rightarrow>
             ([Translate text None toLang,
               Console (WarnLine (js ''Translation failed: '' @ msg))],
              Inr \<lparr>r_text = text, r_iso = Some (js ''unknown''), r_forcedFrom = None\<rparr>))
      | Inr (t1, iso1) \<Rightarrow>
          let res = \<lparr>r_text = t1, r_iso = iso1, r_forcedFrom = None\<rparr>;
              guess = toLowerCase (orElse iso1 []);
              shouldForceRu =
                (PREFER_RU_FOR_CYRILLIC \<and> CYRILLIC_REGEX text \<and> guess \<noteq> js ''ru'')
          in if shouldForceRu then
               (case translate text (Some (js ''ru'')) toLang of
                  Inr (t2, iso2) \<Rightarrow>
                    ([Translate text None toLang, Translate text (Some (js ''ru'')) toLang],
                     Inr \<lparr>r_text = t2, r_iso = iso2, r_forcedFrom = Some (js ''ru'')\<rparr>)
                | Inl err2 \<Rightarrow>
                    ([Translate text None toLang, Translate text (Some (js ''ru'')) toLang],
                     Inr res))
             else ([Translate text None toLang], Inr res))"

section \<open>The command handlers\<close>

text \<open>
  \<^verbatim>\<open>handleCodeLang\<close>: the trace and the returned flag (\<open>True\<close>: the message was a
  \<^verbatim>\<open>code\<close> command).
\<close>

definition handleCodeLang ::
  "(jsstring \<Rightarrow> jsstring \<Rightarrow> int) \<Rightarrow> bool \<Rightarrow> jsstring \<Rightarrow> effect list \<times> bool"
where
  "handleCodeLang ratio isTeam msg =
     (case re_code_query msg of
        None \<Rightarrow> ([], False)
      | Some m1 \<Rightarrow>
          let query = trim m1 in
          if query = [] then ([], True)
          else (case bestLangMatch ratio query of
                  Some match \<Rightarrow>
                    let reply = js ''For '' @ m_name match @ js '' use tm_'' @ m_code match
                    in (writeChatCfg reply isTeam @
                        [PressKeyLater, Console (CodeInfo reply (m_score match))], True)
                | None \<Rightarrow>
                    let reply = js ''No close language match for '' @ [34] @ query @ [34] @
                                js ''. Try tm_en, tm_de, tm_fr, tm_es, tm_ru, tm_pt...''
                    in (writeChatCfg reply isTeam @
                        [PressKeyLater, Console (WarnLine reply)], True)))"

record last_msg =
  lm_player :: jsstring
  lm_message :: jsstring
  lm_team :: team

definition said_reply :: "jsstring \<Rightarrow> jsstring \<Rightarrow> jsstring \<Rightarrow> jsstring" where
  "said_reply who translated originalLang =
     who @ js '' said - '' @ translated @ js '' - (from '' @ originalLang @ js '')''"

text \<open>
  \<^verbatim>\<open>handleTm\<close>. \<^verbatim>\<open>const [cmd, ...rest] = message.split(" ")\<close>; an undefined \<^verbatim>\<open>cmd\<close>
  would make \<^verbatim>\<open>cmd.slice\<close> raise a TypeError.
\<close>

definition handleTm ::
  "translator \<Rightarrow> bool \<Rightarrow> jsstring \<Rightarrow> jsstring \<Rightarrow> effect list \<times> (js_error + bool)"
where
  "handleTm translate isTeam sender msg =
     (if \<not> re_tm msg then ([], Inr False)
      else (case split_space msg of
              [] \<Rightarrow> ([], Inl (Error (js ''TypeError'')))
            | cmd # rest \<Rightarrow>
                let lang = toLowerCase (drop 3 cmd);
                    text = trim (join_space rest)
                in if text = [] then ([], Inr True)
                   else (case smartTranslate translate text lang of
                           (tr, Inl e) \<Rightarrow> (tr, Inl e)
                         | (tr, Inr res) \<Rightarrow>
                             let translated = r_text res;
                                 originalLang = originalLangReadable res;
                                 output = said_reply sender translated originalLang
                             in (tr @ writeChatCfg output isTeam @
                                 [PressKeyLater, Console (TmSent lang),
                                  Console (KVLine (js ''from'') originalLang),
                                  Console (KVLine (js ''text'') translated)], Inr True))))"

text \<open>\<^verbatim>\<open>parts[1]\<close>: undefined beyond the end of the array.\<close>

definition nth_opt :: "'a list \<Rightarrow> nat \<Rightarrow> 'a option" where
  "nth_opt xs i = (if i < length xs then Some (xs ! i) else None)"

definition handleTl ::
  "translator \<Rightarrow> last_msg option \<Rightarrow> bool \<Rightarrow> jsstring \<Rightarrow> effect list \<times> (js_error + bool)"
where
  "handleTl translate lastForeignMsg isTeam msg =
     (if \<not> re_tl msg then ([], Inr False)
      else (case lastForeignMsg of
              None \<Rightarrow>
                let notice = js ''No recent message to translate.''
                in (writeChatCfg notice isTeam @ [PressKeyLater, Console (WarnLine notice)],
                    Inr True)
            | Some lastMsg \<Rightarrow>
                let parts = split_space msg;
                    target = orElse (map_option toLowerCase (nth_opt parts 1)) (js ''en'')
                in (case smartTranslate translate (lm_message lastMsg) target of
                      (tr, Inl e) \<Rightarrow> (tr, Inl e)
                    | (tr, Inr res) \<Rightarrow>
                        let translated = r_text res;
                            originalLang = originalLangReadable res;
                            output = said_reply (lm_player lastMsg) translated originalLang
                        in (tr @ writeChatCfg output isTeam @
                            [PressKeyLater, Console (TlSent target),
                             Console (KVLine (js ''from'') originalLang),
                             Console (KVLine (js ''player'') (lm_player lastMsg)),
                             Console (KVLine (js ''text'') translated)], Inr True))))"

definition autoTranslateToConsole ::
  "translator \<Rightarrow> team \<Rightarrow> jsstring \<Rightarrow> jsstring \<Rightarrow> effect list \<times> (js_error + unit)"
where
  "autoTranslateToConsole translate tm sender msg =
     (if \<not> AUTO_TRANSLATE then ([], Inr ())
      else if msg = [] then ([], Inr ())
      else if re_command msg then ([], Inr ())
      else if re_dots msg then ([], Inr ())
      else (case smartTranslate translate msg AUTO_TRANSLATE_TARGET of
              (tr, Inl e) \<Rightarrow> (tr, Inl e)
            | (tr, Inr res) \<Rightarrow>
                let fromIso = sourceIso res in
                if fromIso \<noteq> toLowerCase AUTO_TRANSLATE_TARGET then
                  (tr @ [Console (AutoLine tm sender (langName fromIso)
                                    (toUpperCase AUTO_TRANSLATE_TARGET) (r_text res))], Inr ())
                else (tr, Inr ())))"

section \<open>Parsing a line and dispatching it\<close>

text \<open>
  \<^verbatim>\<open>line.match(/\[(CT|T|ALL)\]\s+([^:]+):\s(.+)/)\<close>, not anchored: the leftmost position
  at which the pattern matches. \<open>player_message_at\<close> is \<^verbatim>\<open>([^:]+):\s(.+)\<close> at the
  head of the text: the sender runs to the first colon, the message is the longest text without
  line terminator. \<open>chat_after_tag\<close> puts \<^verbatim>\<open>\s+\<close> in front, greedy and giving back
  down to one white space.
\<close>

definition team_tag_at :: "jsstring \<Rightarrow> (team \<times> jsstring) option" where
  "team_tag_at s =
     (if take 4 s = js ''[CT]'' then Some (Team_CT, drop 4 s)
      else if take 3 s = js ''[T]'' then Some (Team_T, drop 3 s)
      else if take 5 s = js ''[ALL]'' then Some (Team_ALL, drop 5 s)
      else None)"

definition player_message_at :: "jsstring \<Rightarrow> (jsstring \<times> jsstring) option" where
  "player_message_at s =
     (let p = takeWhile (\<lambda>c. c \<noteq> 58) s in
      if p = [] then None
      else (case dropWhile (\<lambda>c. c \<noteq> 58) s of
              colon # w # rest \<Rightarrow>
                if isWhiteSpace w then
                  (let raw = takeWhile (\<lambda>c. \<not> isLineTerminator c) rest
                   in if raw = [] then None else Some (p, raw))
                else None
            | _ \<Rightarrow> None))"

definition chat_after_tag :: "jsstring \<Rightarrow> (jsstring \<times> jsstring) option" where
  "chat_after_tag s =
     (case find (\<lambda>k. player_message_at (drop k s) \<noteq> None)
                (rev [1 ..< Suc (length (takeWhile isWhiteSpace s))]) of
        None \<Rightarrow> None
      | Some k \<Rightarrow> player_message_at (drop k s))"

definition chat_at :: "jsstring \<Rightarrow> (team \<times> jsstring \<times> jsstring) option" where
  "chat_at s =
     (case team_tag_at s of
        None \<Rightarrow> None
      | Some (tm, rest) \<Rightarrow>
          (case chat_after_tag rest of
             None \<Rightarrow> None
           | Some (p, raw) \<Rightarrow> Some (tm, p, raw)))"

fun line_match :: "jsstring \<Rightarrow> (team \<times> jsstring \<times> jsstring) option" where
  "line_match [] = None"
| "line_match (c # cs) =
     (case chat_at (c # cs) of
        Some r \<Rightarrow> Some r
      | None \<Rightarrow> line_match cs)"

text \<open>
  The outcome of \<^verbatim>\<open>handleLine\<close>: the variable \<^verbatim>\<open>lastForeignMsg\<close> afterwards, the trace, and
  the error with which the returned promise is rejected, if any.
\<close>

record outcome =
  o_memory :: "last_msg option"
  o_trace :: "effect list"
  o_error :: "js_error option"

text \<open>
  The body of \<^verbatim>\<open>handleLine\<close> behind the match, on the three captures.
\<close>

definition handleChat ::
  "translator \<Rightarrow> (jsstring \<Rightarrow> jsstring \<Rightarrow> int) \<Rightarrow> last_msg option \<Rightarrow>
   team \<Rightarrow> jsstring \<Rightarrow> jsstring \<Rightarrow> outcome"
where
  "handleChat translate ratio lastForeignMsg tm player messageRaw =
     (let msg = trim messageRaw;
          sender = trim player;
          isTeam = (tm = Team_CT \<or> tm = Team_T);
          echo = [Console (ChatLine tm sender msg)];
          mem = (if \<not> re_command msg \<and> \<not> re_dots msg
                 then Some \<lparr>lm_player = sender, lm_message = msg, lm_team = tm\<rparr>
                 else lastForeignMsg)
      in case handleTl translate mem isTeam msg of
           (t1, Inl e) \<Rightarrow> \<lparr>o_memory = mem, o_trace = echo @ t1, o_error = Some e\<rparr>
         | (t1, Inr True) \<Rightarrow> \<lparr>o_memory = mem, o_trace = echo @ t1, o_error = None\<rparr>
         | (t1, Inr False) \<Rightarrow>
             (case handleCodeLang ratio isTeam msg of
                (t2, True) \<Rightarrow> \<lparr>o_memory = mem, o_trace = echo @ t1 @ t2, o_error = None\<rparr>
              | (t2, False) \<Rightarrow>
                  (case handleTm translate isTeam sender msg of
                     (t3, Inl e) \<Rightarrow>
                       \<lparr>o_memory = mem, o_trace = echo @ t1 @ t2 @ t3, o_error = Some e\<rparr>
                   | (t3, Inr True) \<Rightarrow>
                       \<lparr>o_memory = mem, o_trace = echo @ t1 @ t2 @ t3, o_error = None\<rparr>
                   | (t3, Inr False) \<Rightarrow>
                       (case autoTranslateToConsole translate tm sender msg of
                          (t4, Inl e) \<Rightarrow>
                            \<lparr>o_memory = mem, o_trace = echo @ t1 @ t2 @ t3 @ t4,
                             o_error = Some e\<rparr>
                        | (t4, Inr u) \<Rightarrow>
                            \<lparr>o_memory = mem, o_trace = echo @ t1 @ t2 @ t3 @ t4,
                             o_error = None\<rparr>))))"

definition handleLine ::
  "translator \<Rightarrow> (jsstring \<Rightarrow> jsstring \<Rightarrow> int) \<Rightarrow> last_msg option \<Rightarrow> jsstring \<Rightarrow> outcome"
where
  "handleLine translate ratio lastForeignMsg line =
     (case line_match line of
        None \<Rightarrow> \<lparr>o_memory = lastForeignMsg, o_trace = [], o_error = None\<rparr>
      | Some (tm, player, messageRaw) \<Rightarrow>
          handleChat translate ratio lastForeignMsg tm player messageRaw)"

text \<open>The deliveries to the outbound sink and the console lines of a trace.\<close>

definition sink_of :: "effect list \<Rightarrow> (jsstring \<times> bool) list" where
  "sink_of tr = List.map_filter (\<lambda>e. case e of WriteCfg m b \<Rightarrow> Some (m, b) | _ \<Rightarrow> None) tr"

definition console_of :: "effect list \<Rightarrow> console_line list" where
  "console_of tr = List.map_filter (\<lambda>e. case e of Console l \<Rightarrow> Some l | _ \<Rightarrow> None) tr"

definition calls_of :: "effect list \<Rightarrow> (jsstring \<times> jsstring option \<times> jsstring) list" where
  "calls_of tr =
     List.map_filter (\<lambda>e. case e of Translate x f t \<Rightarrow> Some (x, f, t) | _ \<Rightarrow> None) tr"

section \<open>The language resolver as specified\<close>

text \<open>
  The matching algorithm in the words of the specification, on the normalized query: no match
  for the empty query; otherwise the first catalogue entry one of whose aliases equals the query,
  with the top score; otherwise the score of an entry is the maximum over its aliases, the winner
  is the first entry in catalogue order that attains the maximum over the entries, and it is
  rejected when that maximum is below 55.
\<close>

definition entry_score_spec :: "(jsstring \<Rightarrow> jsstring \<Rightarrow> int) \<Rightarrow> jsstring \<Rightarrow> candidate \<Rightarrow> score" where
  "entry_score_spec ratio q c = Max ((\<lambda>a. Some (ratio q a)) ` set (c_aliases c))"

definition resolve_language_spec ::
  "(jsstring \<Rightarrow> jsstring \<Rightarrow> int) \<Rightarrow> jsstring \<Rightarrow> lang_match option"
where
  "resolve_language_spec ratio q =
     (let catalog = buildLangCandidates
      in if q = [] then None
         else (case find (\<lambda>c. q \<in> set (c_aliases c)) catalog of
                 Some c \<Rightarrow> Some \<lparr>m_code = c_code c, m_name = c_name c, m_score = Some 100\<rparr>
               | None \<Rightarrow>
                   let best = Max (set (map (entry_score_spec ratio q) catalog)) in
                   if best < Some 55 then None
                   else map_option
                          (\<lambda>c. \<lparr>m_code = c_code c, m_name = c_name c, m_score = best\<rparr>)
                          (find (\<lambda>c. entry_score_spec ratio q c = best) catalog)))"

section \<open>The target of an inline translation\<close>

text \<open>
  \<^verbatim>\<open>handleTm\<close> once more, with \<^verbatim>\<open>String.prototype.toLowerCase\<close> as applied to the command
  token left open: \<open>lower\<close> stands for it, so that what is said of the token holds
  whatever the case mapping does beyond ASCII. \<open>handleTm\<close> is the instance at
  \<open>toLowerCase\<close>.
\<close>

definition handleTm_with ::
  "(jsstring \<Rightarrow> jsstring) \<Rightarrow> translator \<Rightarrow> bool \<Rightarrow> jsstring \<Rightarrow> jsstring \<Rightarrow>
   effect list \<times> (js_error + bool)"
where
  "handleTm_with lower translate isTeam sender msg =
     (if \<not> re_tm msg then ([], Inr False)
      else (case split_space msg of
              [] \<Rightarrow> ([], Inl (Error (js ''TypeError'')))
            | cmd # rest \<Rightarrow>
                let lang = lower (drop 3 cmd);
                    text = trim (join_space rest)
                in if text = [] then ([], Inr True)
                   else (case smartTranslate translate text lang of
                           (tr, Inl e) \<Rightarrow> (tr, Inl e)
                         | (tr, Inr res) \<Rightarrow>
                             let translated = r_text res;
                                 originalLang = originalLangReadable res;
                                 output = said_reply sender translated originalLang
                             in (tr @ writeChatCfg output isTeam @
                                 [PressKeyLater, Console (TmSent lang),
                                  Console (KVLine (js ''from'') originalLang),
                                  Console (KVLine (js ''text'') translated)], Inr True))))"

text \<open>
  The reading of the token as delimited by white space of any kind, against which the split at
  U+0020 is compared: the text before the first white space character.
\<close>

definition first_whitespace_token :: "jsstring \<Rightarrow> jsstring" where
  "first_whitespace_token s = takeWhile (\<lambda>c. \<not> isWhiteSpace c) s"

section \<open>Example environments\<close>

text \<open>
  Concrete collaborators for the runs evaluated below: a translation capability that is
  unreachable, one that answers, and two scoring functions standing for \<^verbatim>\<open>fuzz.ratio\<close>.
\<close>

definition offline_translate :: translator where
  "offline_translate x f t = Inl (Error (js ''offline''))"

definition stub_translate :: translator where
  "stub_translate x f t =
     (if f = Some (js ''ru'') then Inr (js ''Hallo'', Some (js ''ru''))
      else if x = js ''hello friend'' then Inr (js ''Hallo Freund'', Some (js ''en''))
      else Inr (x, Some (js ''bg'')))"

definition zero_ratio :: "jsstring \<Rightarrow> jsstring \<Rightarrow> int" where
  "zero_ratio q a = 0"

definition stub_ratio :: "jsstring \<Rightarrow> jsstring \<Rightarrow> int" where
  "stub_ratio q a = (if a = js ''portuguese'' then 60 else 10)"

section \<open>Auxiliary facts\<close>

lemmas eval_defs =
  js_def chat_at_def team_tag_at_def chat_after_tag_def player_message_at_def
  isWhiteSpace_def isLineTerminator_def trim_def re_command_def re_tm_def re_tl_def
  re_code_def re_dots_def lowerCu_def isCodeChar_def isWordChar_def wordBoundary_def

lemma smartTranslate_returns:
  "\<exists>tr res. smartTranslate translate text toLang = (tr, Inr res)"
  by (auto simp: smartTranslate_def Let_def split: sum.splits js_error.splits prod.splits)

lemma handleChat_memory:
  "o_memory (handleChat translate ratio mem tm player raw) =
     (if \<not> re_command (trim raw) \<and> \<not> re_dots (trim raw)
      then Some \<lparr>lm_player = trim player, lm_message = trim raw, lm_team = tm\<rparr>
      else mem)"
  by (simp add: handleChat_def Let_def split: prod.splits sum.splits bool.splits)

section \<open>The state update rule\<close>

text \<open>
  C1. The rule of \<^verbatim>\<open>handleLine\<close> remembers a message when it matches no command pattern and
  does not match \<^verbatim>\<open>/^[.\s]+$/\<close>. That pattern demands one character, so a message that is
  empty after trimming passes the rule although it has no character other than white space: the
  line \<^verbatim>\<open>[ALL] Eve:\<close> followed by two spaces is accepted, its message trims to the empty
  string, and it replaces what Ann said.
\<close>

theorem whitespace_only_message_remembered:
  "line_match (js ''[ALL] Eve:  '') = Some (Team_ALL, js ''Eve'', js '' '') \<and>
   trim (js '' '') = [] \<and>
   \<not> re_dots (trim (js '' '')) \<and>
   o_memory (handleLine offline_translate zero_ratio
       (Some \<lparr>lm_player = js ''Ann'', lm_message = js ''hola'', lm_team = Team_T\<rparr>)
       (js ''[ALL] Eve:  '')) =
     Some \<lparr>lm_player = js ''Eve'', lm_message = [], lm_team = Team_ALL\<rparr>"
  by (simp add: handleLine_def handleChat_memory eval_defs)

text \<open>
  C7. A line whose message part is white space only is matched by the pattern of
  \<^verbatim>\<open>handleLine\<close>; its trimmed message is empty, matches neither a command pattern nor
  \<^verbatim>\<open>/^[.\s]+$/\<close> (which demands one character), and so replaces the remembered message:
  here the line \<^verbatim>\<open>[CT] Bob:\<close> followed by three spaces replaces what Ann said.
\<close>

theorem empty_message_overwrites_memory:
  "line_match (js ''[CT] Bob:   '') = Some (Team_CT, js ''Bob'', js ''  '') \<and>
   trim (js ''  '') = [] \<and>
   o_memory (handleLine offline_translate zero_ratio
       (Some \<lparr>lm_player = js ''Ann'', lm_message = js ''hola'', lm_team = Team_T\<rparr>)
       (js ''[CT] Bob:   '')) =
     Some \<lparr>lm_player = js ''Bob'', lm_message = [], lm_team = Team_CT\<rparr>"
  by (simp add: handleLine_def handleChat_memory eval_defs)

text \<open>
  C8, as stated, fails: the bare message \<^verbatim>\<open>tm_\<close> matches no command pattern and is remembered.
\<close>

theorem bare_tm_counterexample:
  "\<not> re_command (js ''tm_'') \<and>
   o_memory (handleLine offline_translate zero_ratio None (js ''[CT] Bob: tm_'')) =
     Some \<lparr>lm_player = js ''Bob'', lm_message = js ''tm_'', lm_team = Team_CT\<rparr>"
  by (simp add: handleLine_def handleChat_memory eval_defs)

text \<open>
  C8, amended. The bare message \<^verbatim>\<open>tm_\<close> matches none of the command patterns (the
  \<^verbatim>\<open>tm_\<close> pattern demands two to five code characters), so it counts as plain and replaces
  the remembered message; a message that matches a command pattern, well-formed or not (such as
  \<^verbatim>\<open>tm_de\<close> without a text), never changes the memory.
\<close>

theorem bare_tm_is_plain:
  "\<not> re_command (js ''tm_'') \<and>
   o_memory (handleChat translate ratio mem tm player (js ''tm_'')) =
     Some \<lparr>lm_player = trim player, lm_message = js ''tm_'', lm_team = tm\<rparr> \<and>
   (re_command (trim raw) \<longrightarrow>
      o_memory (handleChat translate ratio mem tm player raw) = mem)"
  by (simp add: handleChat_memory) (simp add: eval_defs)

theorem bare_tm_is_plain_witness:
  "re_command (trim (js ''tm_de'')) \<and>
   o_memory (handleChat offline_translate zero_ratio
       (Some \<lparr>lm_player = js ''Ann'', lm_message = js ''hola'', lm_team = Team_T\<rparr>)
       Team_CT (js ''Bob'') (js ''tm_de'')) =
     Some \<lparr>lm_player = js ''Ann'', lm_message = js ''hola'', lm_team = Team_T\<rparr>"
proof -
  have a: "re_command (trim (js ''tm_de''))"
    by (simp add: eval_defs)
  show ?thesis
    using a bare_tm_is_plain [of offline_translate zero_ratio
        "Some \<lparr>lm_player = js ''Ann'', lm_message = js ''hola'', lm_team = Team_T\<rparr>"
        Team_CT "js ''Bob''" "js ''tm_de''"]
    by simp
qed

section \<open>Traces\<close>

lemma map_filter_append: "List.map_filter f (xs @ ys) = List.map_filter f xs @ List.map_filter f ys"
  by (simp add: List.map_filter_def)

lemma sink_of_simps:
  "sink_of [] = []"
  "sink_of (xs @ ys) = sink_of xs @ sink_of ys"
  "sink_of (WriteCfg m b # xs) = (m, b) # sink_of xs"
  "sink_of (Translate x f t # xs) = sink_of xs"
  "sink_of (PressKeyLater # xs) = sink_of xs"
  "sink_of (Console l # xs) = sink_of xs"
  by (simp_all add: sink_of_def map_filter_append List.map_filter_simps)

lemma console_of_simps:
  "console_of [] = []"
  "console_of (xs @ ys) = console_of xs @ console_of ys"
  "console_of (WriteCfg m b # xs) = console_of xs"
  "console_of (Translate x f t # xs) = console_of xs"
  "console_of (PressKeyLater # xs) = console_of xs"
  "console_of (Console l # xs) = l # console_of xs"
  by (simp_all add: console_of_def map_filter_append List.map_filter_simps)

lemma calls_of_simps:
  "calls_of [] = []"
  "calls_of (xs @ ys) = calls_of xs @ calls_of ys"
  "calls_of (WriteCfg m b # xs) = calls_of xs"
  "calls_of (Translate x f t # xs) = (x, f, t) # calls_of xs"
  "calls_of (PressKeyLater # xs) = calls_of xs"
  "calls_of (Console l # xs) = calls_of xs"
  by (simp_all add: calls_of_def map_filter_append List.map_filter_simps)

lemma smartTranslate_sink: "sink_of (fst (smartTranslate translate text toLang)) = []"
  by (auto simp: smartTranslate_def Let_def sink_of_simps split: sum.splits js_error.splits prod.splits)

section \<open>The translation resolver never fails\<close>

text \<open>
  C3. \<^verbatim>\<open>smartTranslate\<close> returns a value for every translation capability, text and target
  code. If the first call of the capability fails, the value is the degraded result: the text
  unchanged, the source code \<^verbatim>\<open>"unknown"\<close>, no override; and the first call is the only
  call made.
\<close>

theorem smartTranslate_degrades:
  "(\<exists>tr res. smartTranslate translate text toLang = (tr, Inr res)) \<and>
   (translate text None toLang = Inl e \<longrightarrow>
      snd (smartTranslate translate text toLang) =
        Inr \<lparr>r_text = text, r_iso = Some (js ''unknown''), r_forcedFrom = None\<rparr> \<and>
      calls_of (fst (smartTranslate translate text toLang)) = [(text, None, toLang)])"
proof (intro conjI impI)
  show "\<exists>tr res. smartTranslate translate text toLang = (tr, Inr res)"
    by (rule smartTranslate_returns)
next
  assume f: "translate text None toLang = Inl e"
  show "snd (smartTranslate translate text toLang) =
        Inr \<lparr>r_text = text, r_iso = Some (js ''unknown''), r_forcedFrom = None\<rparr>"
    using f by (cases e) (simp add: smartTranslate_def)
  show "calls_of (fst (smartTranslate translate text toLang)) = [(text, None, toLang)]"
    using f by (cases e) (simp add: smartTranslate_def calls_of_simps)
qed

theorem smartTranslate_degrades_witness:
  "offline_translate (js ''hola'') None (js ''de'') = Inl (Error (js ''offline'')) \<and>
   snd (smartTranslate offline_translate (js ''hola'') (js ''de'')) =
     Inr \<lparr>r_text = js ''hola'', r_iso = Some (js ''unknown''), r_forcedFrom = None\<rparr> \<and>
   calls_of (fst (smartTranslate offline_translate (js ''hola'') (js ''de''))) =
     [(js ''hola'', None, js ''de'')]"
  using smartTranslate_degrades [of offline_translate "js ''hola''" "js ''de''" "Error (js ''offline'')"]
  by (simp add: offline_translate_def)

section \<open>The Cyrillic override\<close>

text \<open>
  C4. After a successful first call, \<^verbatim>\<open>smartTranslate\<close> calls the capability a second time,
  forcing the source \<^verbatim>\<open>"ru"\<close>, if and only if the detected source (lower case, empty when
  unset) is not \<^verbatim>\<open>"ru"\<close>, the text has a character from U+0400 to U+04FF and
  \<^verbatim>\<open>PREFER_RU_FOR_CYRILLIC\<close> is set. If that second call fails, the result of the first call
  is returned as it is; if it succeeds, its result is returned marked as forced from
  \<^verbatim>\<open>"ru"\<close>.
\<close>

theorem smartTranslate_override:
  assumes "translate text None toLang = Inr (t1, iso1)"
  shows "calls_of (fst (smartTranslate translate text toLang)) =
           (if toLowerCase (orElse iso1 []) \<noteq> js ''ru'' \<and> CYRILLIC_REGEX text \<and>
               PREFER_RU_FOR_CYRILLIC
            then [(text, None, toLang), (text, Some (js ''ru''), toLang)]
            else [(text, None, toLang)]) \<and>
         snd (smartTranslate translate text toLang) =
           (if toLowerCase (orElse iso1 []) \<noteq> js ''ru'' \<and> CYRILLIC_REGEX text \<and>
               PREFER_RU_FOR_CYRILLIC
            then (case translate text (Some (js ''ru'')) toLang of
                    Inl e \<Rightarrow> Inr \<lparr>r_text = t1, r_iso = iso1, r_forcedFrom = None\<rparr>
                  | Inr (t2, iso2) \<Rightarrow>
                      Inr \<lparr>r_text = t2, r_iso = iso2, r_forcedFrom = Some (js ''ru'')\<rparr>)
            else Inr \<lparr>r_text = t1, r_iso = iso1, r_forcedFrom = None\<rparr>)"
  using assms
  by (auto simp: smartTranslate_def Let_def calls_of_simps split: sum.splits prod.splits)

theorem smartTranslate_override_witness:
  "stub_translate [0x41F, 0x440, 0x438, 0x432, 0x435, 0x442] None (js ''de'') =
     Inr ([0x41F, 0x440, 0x438, 0x432, 0x435, 0x442], Some (js ''bg'')) \<and>
   calls_of (fst (smartTranslate stub_translate [0x41F, 0x440, 0x438, 0x432, 0x435, 0x442] (js ''de''))) =
     [([0x41F, 0x440, 0x438, 0x432, 0x435, 0x442], None, js ''de''),
      ([0x41F, 0x440, 0x438, 0x432, 0x435, 0x442], Some (js ''ru''), js ''de'')] \<and>
   snd (smartTranslate stub_translate [0x41F, 0x440, 0x438, 0x432, 0x435, 0x442] (js ''de'')) =
     Inr \<lparr>r_text = js ''Hallo'', r_iso = Some (js ''ru''), r_forcedFrom = Some (js ''ru'')\<rparr>"
proof -
  have a: "stub_translate [0x41F, 0x440, 0x438, 0x432, 0x435, 0x442] None (js ''de'') =
     Inr ([0x41F, 0x440, 0x438, 0x432, 0x435, 0x442], Some (js ''bg''))"
    by (simp add: stub_translate_def js_def)
  show ?thesis
    using a smartTranslate_override [of stub_translate "[0x41F, 0x440, 0x438, 0x432, 0x435, 0x442]"
        "js ''de''" "[0x41F, 0x440, 0x438, 0x432, 0x435, 0x442]" "Some (js ''bg'')"]
    by (simp add: stub_translate_def js_def toLowerCase_def lowerCu_def orElse_def
          CYRILLIC_REGEX_def PREFER_RU_FOR_CYRILLIC_def)
qed

section \<open>The console projection\<close>

lemma langName_unknown: "langName (js ''unknown'') = js ''UNKNOWN''"
  by code_simp

lemma case_en: "toUpperCase (js ''en'') = js ''EN''" "toLowerCase (js ''en'') = js ''en''"
  by (simp_all add: js_def toUpperCase_def upperCu_def toLowerCase_def lowerCu_def)

lemma sourceIso_unknown: "sourceIso \<lparr>r_text = x, r_iso = Some (js ''unknown''), r_forcedFrom = None\<rparr> = js ''unknown''"
  by (simp add: sourceIso_def orElse_def js_def toLowerCase_def lowerCu_def)

text \<open>
  C6, amended. For a non-empty message that is no command and not only dots and white space,
  \<^verbatim>\<open>autoTranslateToConsole\<close> delivers nothing to the outbound sink. Its console output is:
  nothing, when the first call succeeded and the detected or forced source code, in lower case,
  is \<^verbatim>\<open>"en"\<close>; exactly one translation line when the call succeeded and the code differs;
  and, when the first call failed, the resolver's warning line followed by the translation line
  (the degraded source \<^verbatim>\<open>"unknown"\<close> differs from \<^verbatim>\<open>"en"\<close>).
\<close>

theorem console_projection:
  assumes "msg \<noteq> []" and "\<not> re_command msg" and "\<not> re_dots msg"
      and "snd (smartTranslate translate msg (js ''en'')) = Inr res"
  shows "sink_of (fst (autoTranslateToConsole translate tm sender msg)) = [] \<and>
         console_of (fst (autoTranslateToConsole translate tm sender msg)) =
           (case translate msg None (js ''en'') of
              Inl e \<Rightarrow>
                (case e of Error m \<Rightarrow>
                   [WarnLine (js ''Translation failed: '' @ m),
                    AutoLine tm sender (js ''UNKNOWN'') (js ''EN'') msg])
            | Inr first \<Rightarrow>
                if sourceIso res = js ''en'' then []
                else [AutoLine tm sender (langName (sourceIso res)) (js ''EN'') (r_text res)])"
proof -
  obtain tr where st: "smartTranslate translate msg (js ''en'') = (tr, Inr res)"
    using assms(4) by (cases "smartTranslate translate msg (js ''en'')") simp
  have sk: "sink_of tr = []"
    using smartTranslate_sink [of translate msg "js ''en''"] st by simp
  have auto_eq: "fst (autoTranslateToConsole translate tm sender msg) =
      tr @ (if sourceIso res = js ''en'' then []
            else [Console (AutoLine tm sender (langName (sourceIso res)) (js ''EN'') (r_text res))])"
    using assms(1-3) st
    by (simp add: autoTranslateToConsole_def AUTO_TRANSLATE_def AUTO_TRANSLATE_TARGET_def
          case_en Let_def)
  show ?thesis
  proof (cases "translate msg None (js ''en'')")
    case (Inl e)
    then obtain m where e: "e = Error m" by (cases e) simp
    from Inl e st have "tr = [Translate msg None (js ''en''), Console (WarnLine (js ''Translation failed: '' @ m))]"
      and "res = \<lparr>r_text = msg, r_iso = Some (js ''unknown''), r_forcedFrom = None\<rparr>"
      by (auto simp: smartTranslate_def)
    moreover have "js ''unknown'' \<noteq> js ''en''"
      by (simp add: js_def)
    ultimately show ?thesis
      using Inl e auto_eq sk
      by (simp add: sink_of_simps console_of_simps sourceIso_unknown langName_unknown)
  next
    case (Inr first)
    then have "console_of tr = []"
      using st
      by (auto simp: smartTranslate_def Let_def console_of_simps split: sum.splits prod.splits if_splits)
    then show ?thesis
      using Inr auto_eq sk by (simp add: sink_of_simps console_of_simps)
  qed
qed


theorem console_projection_witness:
  "js ''hola'' \<noteq> [] \<and> \<not> re_command (js ''hola'') \<and> \<not> re_dots (js ''hola'') \<and>
   snd (smartTranslate stub_translate (js ''hola'') (js ''en'')) =
     Inr \<lparr>r_text = js ''hola'', r_iso = Some (js ''bg''), r_forcedFrom = None\<rparr> \<and>
   sink_of (fst (autoTranslateToConsole stub_translate Team_CT (js ''Bob'') (js ''hola''))) = [] \<and>
   console_of (fst (autoTranslateToConsole stub_translate Team_CT (js ''Bob'') (js ''hola''))) =
     [AutoLine Team_CT (js ''Bob'') (js ''Bulgarian'') (js ''EN'') (js ''hola'')]"
proof -
  have a: "js ''hola'' \<noteq> []" and b: "\<not> re_command (js ''hola'')" and c: "\<not> re_dots (js ''hola'')"
    by (simp_all add: eval_defs)
  have f: "stub_translate (js ''hola'') None (js ''en'') = Inr (js ''hola'', Some (js ''bg''))"
    by (simp add: stub_translate_def js_def)
  have d: "snd (smartTranslate stub_translate (js ''hola'') (js ''en'')) =
     Inr \<lparr>r_text = js ''hola'', r_iso = Some (js ''bg''), r_forcedFrom = None\<rparr>"
    by (simp add: smartTranslate_def f Let_def CYRILLIC_REGEX_def) (simp add: js_def)
  have s: "sourceIso \<lparr>r_text = js ''hola'', r_iso = Some (js ''bg''), r_forcedFrom = None\<rparr> = js ''bg''"
    by (simp add: sourceIso_def orElse_def js_def toLowerCase_def lowerCu_def)
  have n: "langName (js ''bg'') = js ''Bulgarian''"
    by code_simp
  have ne: "js ''bg'' \<noteq> js ''en''"
    by (simp add: js_def)
  show ?thesis
    using a b c d console_projection [OF a b c d, of Team_CT "js ''Bob''"]
    by (simp add: f s n ne)
qed

text \<open>
  C6, as stated, fails when the translation capability is unreachable: the source code
  \<^verbatim>\<open>"unknown"\<close> differs from \<^verbatim>\<open>"en"\<close>, and two console lines are printed, not one.
\<close>

theorem console_projection_counterexample:
  "\<not> re_command (js ''hola'') \<and> \<not> re_dots (js ''hola'') \<and>
   sourceIso \<lparr>r_text = js ''hola'', r_iso = Some (js ''unknown''), r_forcedFrom = None\<rparr> \<noteq> js ''en'' \<and>
   smartTranslate offline_translate (js ''hola'') (js ''en'') =
     ([Translate (js ''hola'') None (js ''en''),
       Console (WarnLine (js ''Translation failed: offline''))],
      Inr \<lparr>r_text = js ''hola'', r_iso = Some (js ''unknown''), r_forcedFrom = None\<rparr>) \<and>
   console_of (fst (autoTranslateToConsole offline_translate Team_CT (js ''Bob'') (js ''hola''))) =
     [WarnLine (js ''Translation failed: offline''),
      AutoLine Team_CT (js ''Bob'') (js ''UNKNOWN'') (js ''EN'') (js ''hola'')]"
proof -
  have a: "js ''hola'' \<noteq> []" and b: "\<not> re_command (js ''hola'')" and c: "\<not> re_dots (js ''hola'')"
    by (simp_all add: eval_defs)
  have ne: "js ''unknown'' \<noteq> js ''en''"
    by (simp add: js_def)
  have st: "smartTranslate offline_translate (js ''hola'') (js ''en'') =
     ([Translate (js ''hola'') None (js ''en''),
       Console (WarnLine (js ''Translation failed: offline''))],
      Inr \<lparr>r_text = js ''hola'', r_iso = Some (js ''unknown''), r_forcedFrom = None\<rparr>)"
    by (simp add: smartTranslate_def offline_translate_def) (simp add: js_def)
  have "fst (autoTranslateToConsole offline_translate Team_CT (js ''Bob'') (js ''hola'')) =
     [Translate (js ''hola'') None (js ''en''),
      Console (WarnLine (js ''Translation failed: offline'')),
      Console (AutoLine Team_CT (js ''Bob'') (js ''UNKNOWN'') (js ''EN'') (js ''hola''))]"
    using a b c
    by (simp add: autoTranslateToConsole_def AUTO_TRANSLATE_def AUTO_TRANSLATE_TARGET_def
          case_en Let_def st sourceIso_unknown langName_unknown ne)
  then show ?thesis
    using b c st ne by (simp add: console_of_simps sourceIso_unknown)
qed

section \<open>Trimmed messages\<close>

lemma dropWhile_all: "(\<forall>c\<in>set (dropWhile P xs). P c) \<Longrightarrow> dropWhile P xs = []"
  using hd_dropWhile [of P xs] by (cases "dropWhile P xs") auto

lemma trim_eq_Nil: "trim s = [] \<longleftrightarrow> (\<forall>c\<in>set s. isWhiteSpace c)"
proof
  assume "trim s = []"
  then have "dropWhile isWhiteSpace (rev (dropWhile isWhiteSpace s)) = []"
    by (simp add: trim_def)
  then have "\<forall>c\<in>set (rev (dropWhile isWhiteSpace s)). isWhiteSpace c"
    unfolding dropWhile_eq_Nil_conv .
  then have "\<forall>c\<in>set (dropWhile isWhiteSpace s). isWhiteSpace c"
    by simp
  then have "dropWhile isWhiteSpace s = []"
    by (rule dropWhile_all)
  then show "\<forall>c\<in>set s. isWhiteSpace c"
    unfolding dropWhile_eq_Nil_conv .
next
  assume "\<forall>c\<in>set s. isWhiteSpace c"
  then show "trim s = []"
    by (auto simp: trim_def dest: set_dropWhileD)
qed

lemma trim_last: "trim s \<noteq> [] \<Longrightarrow> \<not> isWhiteSpace (last (trim s))"
proof -
  assume ne: "trim s \<noteq> []"
  let ?r = "dropWhile isWhiteSpace (rev (dropWhile isWhiteSpace s))"
  from ne have r: "?r \<noteq> []" by (simp add: trim_def)
  have "last (trim s) = hd ?r"
    using r by (simp add: trim_def last_rev)
  moreover have "\<not> isWhiteSpace (hd ?r)"
    using r by (rule hd_dropWhile)
  ultimately show ?thesis by simp
qed

section \<open>The command patterns exclude one another\<close>

lemma lowerCu_underscore: "lowerCu 95 = 95"
  by (simp add: lowerCu_def)

lemma re_tl_head: "re_tl m \<Longrightarrow> \<exists>rest. m = 95 # rest"
  by (auto simp: re_tl_def split: list.splits)

lemma re_tm_head: "re_tm m \<Longrightarrow> \<exists>a rest. m = a # rest \<and> lowerCu a = 116"
  by (auto simp: re_tm_def split: list.splits)

lemma re_code_head: "re_code m \<Longrightarrow> \<exists>a rest. m = a # rest \<and> lowerCu a = 99"
  by (auto simp: re_code_def split: list.splits)

lemma re_code_query_head: "re_code_query m = Some q \<Longrightarrow> \<exists>a rest. m = a # rest \<and> lowerCu a = 99"
  by (auto simp: re_code_query_def split: list.splits if_splits)

lemma re_tl_excl: "re_tl m \<Longrightarrow> \<not> re_tm m \<and> \<not> re_code m \<and> re_code_query m = None"
proof -
  assume "re_tl m"
  then obtain rest where m: "m = 95 # rest" using re_tl_head by blast
  have "\<not> re_tm m" using re_tm_head [of m] m by (auto simp: lowerCu_underscore)
  moreover have "\<not> re_code m" using re_code_head [of m] m by (auto simp: lowerCu_underscore)
  moreover have "re_code_query m = None"
    using re_code_query_head [of m] m by (cases "re_code_query m") (auto simp: lowerCu_underscore)
  ultimately show ?thesis by simp
qed

lemma re_tm_excl: "re_tm m \<Longrightarrow> \<not> re_tl m \<and> \<not> re_code m \<and> re_code_query m = None"
proof -
  assume "re_tm m"
  then obtain a rest where m: "m = a # rest" "lowerCu a = 116" using re_tm_head by blast
  have "\<not> re_tl m" using re_tl_head [of m] m by (auto simp: lowerCu_underscore)
  moreover have "\<not> re_code m" using re_code_head [of m] m by auto
  moreover have "re_code_query m = None"
    using re_code_query_head [of m] m by (cases "re_code_query m") auto
  ultimately show ?thesis by simp
qed

lemma re_code_excl: "re_code m \<Longrightarrow> \<not> re_tl m \<and> \<not> re_tm m"
  using re_tl_excl re_tm_excl by blast

lemma find_first: "find P xs = Some x \<Longrightarrow> x \<in> set xs \<and> P x"
  by (induction xs) (auto split: if_splits)

lemma re_code_query_SomeD:
  assumes "re_code_query m = Some q"
  shows "\<exists>a b c d rest k. m = a # b # c # d # rest \<and>
           lowerCu a = 99 \<and> lowerCu b = 111 \<and> lowerCu c = 100 \<and> lowerCu d = 101 \<and>
           1 \<le> k \<and> k \<le> length (takeWhile isSep rest) \<and> q = drop k rest \<and> q \<noteq> []"
proof -
  from assms obtain a b c d rest where m: "m = a # b # c # d # rest"
    and kw: "lowerCu a = 99" "lowerCu b = 111" "lowerCu c = 100" "lowerCu d = 101"
    by (auto simp: re_code_query_def split: list.splits if_splits)
  let ?P = "\<lambda>k. drop k rest \<noteq> [] \<and> list_all (\<lambda>x. \<not> isLineTerminator x) (drop k rest)"
  let ?ks = "rev [1 ..< Suc (length (takeWhile isSep rest))]"
  from assms have "map_option (\<lambda>k. drop k rest) (find ?P ?ks) = Some q"
    unfolding m re_code_query_def using kw by simp
  then obtain k where f: "find ?P ?ks = Some k" and q: "q = drop k rest"
    by (cases "find ?P ?ks") auto
  from find_first [OF f] have "k \<in> set ?ks" and "drop k rest \<noteq> []" by simp_all
  then have "1 \<le> k" and "k \<le> length (takeWhile isSep rest)" and "q \<noteq> []"
    using q by auto
  with m kw q show ?thesis by blast
qed

lemma re_code_query_re_code: "re_code_query m = Some q \<Longrightarrow> re_code m"
proof -
  assume "re_code_query m = Some q"
  from re_code_query_SomeD [OF this] obtain a b c d rest k where m: "m = a # b # c # d # rest"
    and kw: "lowerCu a = 99" "lowerCu b = 111" "lowerCu c = 100" "lowerCu d = 101"
    and k: "1 \<le> k" "k \<le> length (takeWhile isSep rest)"
    by blast
  from k have "takeWhile isSep rest \<noteq> []" by auto
  then obtain e rest' where "rest = e # rest'" and "isSep e"
    by (cases rest) (auto split: if_splits)
  then show ?thesis using m kw by (simp add: re_code_def isSep_def)
qed

lemma re_code_query_suffix:
  "re_code_query m = Some q \<Longrightarrow> q \<noteq> [] \<and> (\<exists>p. m = p @ q)"
proof -
  assume "re_code_query m = Some q"
  from re_code_query_SomeD [OF this] obtain a b c d rest k where m: "m = a # b # c # d # rest"
    and q: "q = drop k rest" and ne: "q \<noteq> []"
    by blast
  have "m = ([a, b, c, d] @ take k rest) @ q"
    unfolding q m by simp
  with ne show ?thesis by blast
qed

lemma re_code_query_trimmed:
  assumes "re_code_query (trim raw) = Some q"
  shows "trim q \<noteq> []"
proof -
  from re_code_query_suffix [OF assms] obtain p where q: "q \<noteq> []" and m: "trim raw = p @ q"
    by blast
  then have "trim raw \<noteq> []" by simp
  then have "\<not> isWhiteSpace (last (trim raw))" by (rule trim_last)
  then have "\<not> isWhiteSpace (last q)" using q m by simp
  moreover have "last q \<in> set q" using q by simp
  ultimately show ?thesis by (auto simp: trim_eq_Nil)
qed

lemma re_code_bare:
  assumes "re_code m" and "length m = 5"
  shows "re_code_query m = None"
proof -
  from assms obtain a b c d e where m: "m = [a, b, c, d, e]"
    by (auto simp: re_code_def length_Suc_conv split: list.splits)
  show ?thesis
    unfolding m by (simp add: re_code_query_def)
qed

section \<open>The handlers one by one\<close>

lemma handleTl_not: "\<not> re_tl msg \<Longrightarrow> handleTl translate mem isTeam msg = ([], Inr False)"
  by (simp add: handleTl_def)

lemma handleTl_yes:
  assumes "re_tl msg"
  shows "\<exists>tr. handleTl translate mem isTeam msg = (tr, Inr True) \<and> length (sink_of tr) = 1"
proof (cases mem)
  case None
  with assms show ?thesis
    by (simp add: handleTl_def Let_def writeChatCfg_def sink_of_simps)
next
  case (Some lastMsg)
  let ?target = "orElse (map_option toLowerCase (nth_opt (split_space msg) 1)) (js ''en'')"
  obtain tr res where st: "smartTranslate translate (lm_message lastMsg) ?target = (tr, Inr res)"
    using smartTranslate_returns by blast
  have "sink_of tr = []"
    using smartTranslate_sink [of translate "lm_message lastMsg" ?target] st by simp
  with assms Some st show ?thesis
    by (simp add: handleTl_def Let_def writeChatCfg_def sink_of_simps)
qed

lemma handleCodeLang_none:
  "re_code_query msg = None \<Longrightarrow> handleCodeLang ratio isTeam msg = ([], False)"
  by (simp add: handleCodeLang_def)

lemma handleCodeLang_some:
  assumes "re_code_query msg = Some q" and "trim q \<noteq> []"
  shows "\<exists>tr. handleCodeLang ratio isTeam msg = (tr, True) \<and> length (sink_of tr) = 1"
  using assms
  by (cases "bestLangMatch ratio (trim q)")
     (simp_all add: handleCodeLang_def Let_def writeChatCfg_def sink_of_simps)

lemma handleCodeLang_hint:
  assumes "re_code_query msg = Some q" and "trim q \<noteq> []"
      and "normalizeQueryLoose (trim q) = []"
  shows "handleCodeLang ratio isTeam msg =
     (writeChatCfg (js ''No close language match for '' @ [34] @ trim q @ [34] @
                    js ''. Try tm_en, tm_de, tm_fr, tm_es, tm_ru, tm_pt...'') isTeam @
      [PressKeyLater,
       Console (WarnLine (js ''No close language match for '' @ [34] @ trim q @ [34] @
                          js ''. Try tm_en, tm_de, tm_fr, tm_es, tm_ru, tm_pt...''))], True)"
proof -
  have "bestLangMatch ratio (trim q) = None"
    using assms(3) by (simp add: bestLangMatch_def bestLangMatchFrom_def)
  with assms(1,2) show ?thesis
    by (simp add: handleCodeLang_def Let_def)
qed

lemma split_space_nonempty: "split_space s \<noteq> []"
  by (induction s) (auto split: list.splits)

lemma hd_split_space: "hd (split_space s) = takeWhile (\<lambda>c. c \<noteq> 32) s"
  by (induction s) (auto split: list.splits simp: split_space_nonempty)

lemma handleTm_inst:
  "handleTm translate isTeam sender msg = handleTm_with toLowerCase translate isTeam sender msg"
  by (simp add: handleTm_def handleTm_with_def)

lemma handleTm_with_not:
  "\<not> re_tm msg \<Longrightarrow> handleTm_with lower translate isTeam sender msg = ([], Inr False)"
  by (simp add: handleTm_with_def)

lemma handleTm_with_notext:
  assumes "re_tm msg" and "trim (join_space (tl (split_space msg))) = []"
  shows "handleTm_with lower translate isTeam sender msg = ([], Inr True)"
proof -
  obtain cmd rest where s: "split_space msg = cmd # rest"
    using split_space_nonempty [of msg] by (cases "split_space msg") auto
  with assms show ?thesis
    by (simp add: handleTm_with_def Let_def)
qed

lemma handleTm_with_text:
  assumes "re_tm msg" and "trim (join_space (tl (split_space msg))) \<noteq> []"
  shows "\<exists>tr tr'. handleTm_with lower translate isTeam sender msg = (tr @ tr', Inr True) \<and>
           tr = fst (smartTranslate translate (trim (join_space (tl (split_space msg))))
                       (lower (drop 3 (hd (split_space msg))))) \<and>
           length (sink_of tr') = 1 \<and> calls_of tr' = []"
proof -
  obtain cmd rest where s: "split_space msg = cmd # rest"
    using split_space_nonempty [of msg] by (cases "split_space msg") auto
  obtain tr res where st:
    "smartTranslate translate (trim (join_space rest)) (lower (drop 3 cmd)) = (tr, Inr res)"
    using smartTranslate_returns by blast
  with assms s show ?thesis
    by (simp add: handleTm_with_def Let_def writeChatCfg_def sink_of_simps calls_of_simps)
qed

lemma autoTranslate_sink:
  "\<exists>tr u. autoTranslateToConsole translate tm sender msg = (tr, Inr u) \<and> sink_of tr = []"
proof -
  obtain tr res where st: "smartTranslate translate msg AUTO_TRANSLATE_TARGET = (tr, Inr res)"
    using smartTranslate_returns by blast
  have "sink_of tr = []"
    using smartTranslate_sink [of translate msg AUTO_TRANSLATE_TARGET] st by simp
  with st show ?thesis
    by (simp add: autoTranslateToConsole_def Let_def sink_of_simps)
qed

lemma autoTranslate_command:
  "re_command msg \<Longrightarrow> autoTranslateToConsole translate tm sender msg = ([], Inr ())"
  by (simp add: autoTranslateToConsole_def)

section \<open>The dispatcher case by case\<close>

lemma handleChat_tl:
  assumes "re_tl (trim raw)"
  shows "length (sink_of (o_trace (handleChat translate ratio mem tm player raw))) = 1"
proof -
  let ?mem = "if \<not> re_command (trim raw) \<and> \<not> re_dots (trim raw)
              then Some \<lparr>lm_player = trim player, lm_message = trim raw, lm_team = tm\<rparr> else mem"
  obtain tr where "handleTl translate ?mem (tm = Team_CT \<or> tm = Team_T) (trim raw) = (tr, Inr True)"
    and "length (sink_of tr) = 1"
    using handleTl_yes [OF assms] by blast
  then show ?thesis
    by (simp add: handleChat_def Let_def sink_of_simps)
qed

lemma handleChat_code:
  assumes "re_code_query (trim raw) = Some q"
  shows "o_trace (handleChat translate ratio mem tm player raw) =
           Console (ChatLine tm (trim player) (trim raw)) #
           fst (handleCodeLang ratio (tm = Team_CT \<or> tm = Team_T) (trim raw))"
    and "length (sink_of (o_trace (handleChat translate ratio mem tm player raw))) = 1"
proof -
  have c: "re_code (trim raw)" using assms by (rule re_code_query_re_code)
  then have ntl: "\<not> re_tl (trim raw)" using re_code_excl by blast
  have t: "trim q \<noteq> []" using assms by (rule re_code_query_trimmed)
  obtain tr where h: "handleCodeLang ratio (tm = Team_CT \<or> tm = Team_T) (trim raw) = (tr, True)"
    and n: "length (sink_of tr) = 1"
    using handleCodeLang_some [OF assms t] by blast
  show "o_trace (handleChat translate ratio mem tm player raw) =
           Console (ChatLine tm (trim player) (trim raw)) #
           fst (handleCodeLang ratio (tm = Team_CT \<or> tm = Team_T) (trim raw))"
    using h by (simp add: handleChat_def Let_def handleTl_not [OF ntl])
  then show "length (sink_of (o_trace (handleChat translate ratio mem tm player raw))) = 1"
    using h n by (simp add: sink_of_simps)
qed

lemma handleChat_tm:
  assumes "re_tm (trim raw)"
  shows "o_trace (handleChat translate ratio mem tm player raw) =
           Console (ChatLine tm (trim player) (trim raw)) #
           fst (handleTm translate (tm = Team_CT \<or> tm = Team_T) (trim player) (trim raw))"
proof -
  have ntl: "\<not> re_tl (trim raw)" and nc: "re_code_query (trim raw) = None"
    using re_tm_excl [OF assms] by simp_all
  show ?thesis
  proof (cases "trim (join_space (tl (split_space (trim raw)))) = []")
    case True
    show ?thesis
      by (simp add: handleChat_def Let_def handleTl_not [OF ntl] handleCodeLang_none [OF nc]
            handleTm_inst handleTm_with_notext [OF assms True])
  next
    case False
    obtain tr tr' where
      "handleTm_with toLowerCase translate (tm = Team_CT \<or> tm = Team_T) (trim player) (trim raw) =
         (tr @ tr', Inr True)"
      using handleTm_with_text [OF assms False] by blast
    then show ?thesis
      by (simp add: handleChat_def Let_def handleTl_not [OF ntl] handleCodeLang_none [OF nc]
            handleTm_inst)
  qed
qed

lemma handleChat_rest:
  assumes "\<not> re_tl (trim raw)" and "re_code_query (trim raw) = None" and "\<not> re_tm (trim raw)"
  shows "o_trace (handleChat translate ratio mem tm player raw) =
           Console (ChatLine tm (trim player) (trim raw)) #
           fst (autoTranslateToConsole translate tm (trim player) (trim raw))"
proof -
  obtain tr u where "autoTranslateToConsole translate tm (trim player) (trim raw) = (tr, Inr u)"
    using autoTranslate_sink by blast
  then show ?thesis
    by (simp add: handleChat_def Let_def handleTl_not [OF assms(1)]
          handleCodeLang_none [OF assms(2)] handleTm_inst handleTm_with_not [OF assms(3)])
qed

lemma handleChat_sink_count:
  "length (sink_of (o_trace (handleChat translate ratio mem tm player raw))) =
     (if re_tl (trim raw) \<or> re_code_query (trim raw) \<noteq> None \<or>
         (re_tm (trim raw) \<and> trim (join_space (tl (split_space (trim raw)))) \<noteq> [])
      then 1 else 0)"
proof (cases "re_tl (trim raw)")
  case True
  then show ?thesis by (simp add: handleChat_tl)
next
  case ntl: False
  show ?thesis
  proof (cases "re_code_query (trim raw)")
    case (Some q)
    then show ?thesis by (simp add: handleChat_code(2))
  next
    case nc: None
    show ?thesis
    proof (cases "re_tm (trim raw)")
      case True
      let ?text = "trim (join_space (tl (split_space (trim raw))))"
      show ?thesis
      proof (cases "?text = []")
        case T: True
        show ?thesis
          using ntl nc True T
          by (simp add: handleChat_tm handleTm_inst handleTm_with_notext sink_of_simps)
      next
        case F: False
        obtain tr tr' where
          h: "handleTm_with toLowerCase translate (tm = Team_CT \<or> tm = Team_T) (trim player) (trim raw) =
             (tr @ tr', Inr True)"
          and tr: "tr = fst (smartTranslate translate ?text
                       (toLowerCase (drop 3 (hd (split_space (trim raw))))))"
          and n: "length (sink_of tr') = 1"
          using handleTm_with_text [OF True F] by blast
        have "sink_of tr = []" unfolding tr by (rule smartTranslate_sink)
        then show ?thesis
          using ntl nc True F h n
          by (simp add: handleChat_tm handleTm_inst sink_of_simps)
      qed
    next
      case False
      obtain tr u where "autoTranslateToConsole translate tm (trim player) (trim raw) = (tr, Inr u)"
        and "sink_of tr = []"
        using autoTranslate_sink by blast
      then show ?thesis
        using ntl nc False by (simp add: handleChat_rest sink_of_simps)
    qed
  qed
qed

section \<open>One reply at most\<close>

text \<open>
  C2, as stated, fails: the message \<^verbatim>\<open>tm_de\<close> is a command, and no handler delivers a reply
  for it.
\<close>

theorem command_without_reply:
  "line_match (js ''[CT] Bob: tm_de'') = Some (Team_CT, js ''Bob'', js ''tm_de'') \<and>
   re_command (trim (js ''tm_de'')) \<and>
   sink_of (o_trace (handleLine offline_translate zero_ratio None (js ''[CT] Bob: tm_de''))) = []"
proof -
  have l: "line_match (js ''[CT] Bob: tm_de'') = Some (Team_CT, js ''Bob'', js ''tm_de'')"
    by (simp add: eval_defs)
  have c: "re_command (trim (js ''tm_de''))"
    by (simp add: eval_defs)
  have "length (sink_of (o_trace (handleChat offline_translate zero_ratio None Team_CT
          (js ''Bob'') (js ''tm_de'')))) = 0"
    unfolding handleChat_sink_count
    by (simp add: eval_defs re_code_query_def)
  then show ?thesis
    using l c by (simp add: handleLine_def)
qed

text \<open>
  C2, amended. For every accepted event the dispatcher delivers at most one message to the
  outbound sink. It delivers exactly one when the trimmed message is a \<^verbatim>\<open>_tl\<close> command, a
  \<^verbatim>\<open>code\<close> command on which the pattern \<^verbatim>\<open>/^code[_\s]+(.+)$/i\<close> of the handler
  matches, or a \<^verbatim>\<open>tm_\<close> command whose text behind the first space is not empty after
  trimming; it delivers none otherwise, in particular for a \<^verbatim>\<open>tm_\<close> command without text,
  for the bare \<^verbatim>\<open>code_\<close>, and for every message that matches no command pattern. On any
  message at most one of \<^verbatim>\<open>handleTl\<close>, \<^verbatim>\<open>handleCodeLang\<close> and \<^verbatim>\<open>handleTm\<close>
  returns true.
\<close>

theorem single_reply:
  "length (sink_of (o_trace (handleChat translate ratio mem tm player raw))) =
     (if re_tl (trim raw) \<or> re_code_query (trim raw) \<noteq> None \<or>
         (re_tm (trim raw) \<and> trim (join_space (tl (split_space (trim raw)))) \<noteq> [])
      then 1 else 0) \<and>
   (\<not> re_command (trim raw) \<longrightarrow>
      sink_of (o_trace (handleChat translate ratio mem tm player raw)) = []) \<and>
   (if snd (handleTl translate mem' isTeam msg) = Inr True then 1 else 0) +
   (if snd (handleCodeLang ratio isTeam msg) then 1 else 0) +
   (if snd (handleTm translate isTeam sender msg) = Inr True then 1 else (0::nat)) \<le> 1"
proof (intro conjI impI)
  show "length (sink_of (o_trace (handleChat translate ratio mem tm player raw))) =
     (if re_tl (trim raw) \<or> re_code_query (trim raw) \<noteq> None \<or>
         (re_tm (trim raw) \<and> trim (join_space (tl (split_space (trim raw)))) \<noteq> [])
      then 1 else 0)"
    by (rule handleChat_sink_count)
next
  assume plain: "\<not> re_command (trim raw)"
  then have "\<not> re_tl (trim raw)" and "\<not> re_tm (trim raw)" and "\<not> re_code (trim raw)"
    by (simp_all add: re_command_def)
  moreover from this have "re_code_query (trim raw) = None"
    using re_code_query_re_code [of "trim raw"] by (cases "re_code_query (trim raw)") auto
  ultimately have "length (sink_of (o_trace (handleChat translate ratio mem tm player raw))) = 0"
    unfolding handleChat_sink_count by simp
  then show "sink_of (o_trace (handleChat translate ratio mem tm player raw)) = []"
    by simp
next
  have a: "snd (handleTl translate mem' isTeam msg) = Inr True \<Longrightarrow> re_tl msg"
    using handleTl_not [of msg translate mem' isTeam] by (cases "re_tl msg") auto
  have b: "snd (handleCodeLang ratio isTeam msg) \<Longrightarrow> re_code_query msg \<noteq> None"
    using handleCodeLang_none [of msg ratio isTeam] by (cases "re_code_query msg") auto
  have c: "snd (handleTm translate isTeam sender msg) = Inr True \<Longrightarrow> re_tm msg"
    using handleTm_with_not [of msg toLowerCase translate isTeam sender]
    by (cases "re_tm msg") (auto simp: handleTm_inst)
  show "(if snd (handleTl translate mem' isTeam msg) = Inr True then 1 else 0) +
   (if snd (handleCodeLang ratio isTeam msg) then 1 else 0) +
   (if snd (handleTm translate isTeam sender msg) = Inr True then 1 else (0::nat)) \<le> 1"
    using a b c re_tl_excl [of msg] re_tm_excl [of msg] by auto
qed

theorem single_reply_witness:
  "re_tm (trim (js ''tm_de hello friend'')) \<and>
   length (sink_of (o_trace (handleChat stub_translate zero_ratio None Team_CT (js ''Alice'')
      (js ''tm_de hello friend'')))) = 1 \<and>
   \<not> re_command (trim (js ''hello friend'')) \<and>
   sink_of (o_trace (handleChat stub_translate zero_ratio None Team_CT (js ''Alice'')
      (js ''hello friend''))) = []"
proof -
  have a: "re_tm (trim (js ''tm_de hello friend''))"
    by (simp add: eval_defs)
  have b: "trim (join_space (tl (split_space (trim (js ''tm_de hello friend''))))) \<noteq> []"
    by (simp add: eval_defs)
  have c: "\<not> re_command (trim (js ''hello friend''))"
    by (simp add: eval_defs)
  show ?thesis
    using a b c
      single_reply [of stub_translate zero_ratio None Team_CT "js ''Alice''"
        "js ''tm_de hello friend''" None True "[]" "[]"]
      single_reply [of stub_translate zero_ratio None Team_CT "js ''Alice''"
        "js ''hello friend''" None True "[]" "[]"]
    by simp
qed

section \<open>A code command without a query\<close>

text \<open>
  C9, as stated, fails: the query of \<^verbatim>\<open>code -\<close> normalizes to the empty string, and the
  hint is delivered.
\<close>

theorem code_dash_counterexample:
  "line_match (js ''[CT] Bob: code -'') = Some (Team_CT, js ''Bob'', js ''code -'') \<and>
   re_code_query (trim (js ''code -'')) = Some (js ''-'') \<and>
   normalizeQueryLoose (trim (js ''-'')) = [] \<and>
   sink_of (o_trace (handleLine offline_translate zero_ratio None (js ''[CT] Bob: code -''))) =
     [(js ''No close language match for '' @ [34] @ js ''-'' @ [34] @
       js ''. Try tm_en, tm_de, tm_fr, tm_es, tm_ru, tm_pt...'', True)]"
proof -
  have l: "line_match (js ''[CT] Bob: code -'') = Some (Team_CT, js ''Bob'', js ''code -'')"
    by (simp add: eval_defs)
  have t: "trim (js ''code -'') = js ''code -''" and t2: "trim (js ''-'') = js ''-''"
    by (simp_all add: eval_defs)
  have q: "re_code_query (js ''code -'') = Some (js ''-'')"
    by (simp add: re_code_query_def isSep_def eval_defs)
  have n: "normalizeQueryLoose (js ''-'') = []"
    by (simp add: normalizeQueryLoose_def toLowerCase_def eval_defs)
  have q': "re_code_query (trim (js ''code -'')) = Some (js ''-'')"
    using q t by simp
  have ne: "trim (js ''-'') \<noteq> []"
    by (simp add: eval_defs)
  have "sink_of (o_trace (handleChat offline_translate zero_ratio None Team_CT (js ''Bob'')
          (js ''code -''))) =
     [(js ''No close language match for '' @ [34] @ js ''-'' @ [34] @
       js ''. Try tm_en, tm_de, tm_fr, tm_es, tm_ru, tm_pt...'', True)]"
    unfolding handleChat_code(1) [OF q'] t
    using handleCodeLang_hint [OF q ne, of zero_ratio True] n t2
    by (simp add: sink_of_simps writeChatCfg_def)
  then show ?thesis
    using l q' n t2 by (simp add: handleLine_def)
qed

text \<open>
  C9, amended. A \<^verbatim>\<open>code\<close> command that consists of the keyword and one separator only
  (\<^verbatim>\<open>code_\<close>) is a command: nothing is delivered to the outbound sink, nothing is
  translated, the memory stays. A \<^verbatim>\<open>code\<close> command whose query is not empty but normalizes
  to the empty string (\<^verbatim>\<open>code -\<close>, \<^verbatim>\<open>code __\<close>) gets the fixed hint that no language
  is close.
\<close>

theorem code_without_query:
  "(re_code (trim raw) \<and> length (trim raw) = 5 \<longrightarrow>
      re_command (trim raw) \<and>
      o_trace (handleChat translate ratio mem tm player raw) =
        [Console (ChatLine tm (trim player) (trim raw))] \<and>
      o_memory (handleChat translate ratio mem tm player raw) = mem) \<and>
   (re_code_query (trim raw) = Some q \<and> normalizeQueryLoose (trim q) = [] \<longrightarrow>
      sink_of (o_trace (handleChat translate ratio mem tm player raw)) =
        [(js ''No close language match for '' @ [34] @ trim q @ [34] @
          js ''. Try tm_en, tm_de, tm_fr, tm_es, tm_ru, tm_pt...'',
          tm = Team_CT \<or> tm = Team_T)])"
proof (intro conjI impI)
  assume a: "re_code (trim raw) \<and> length (trim raw) = 5"
  then have c: "re_command (trim raw)" by (simp add: re_command_def)
  show "re_command (trim raw)" by (rule c)
  have ntl: "\<not> re_tl (trim raw)" and ntm: "\<not> re_tm (trim raw)"
    using a re_code_excl by blast+
  have nq: "re_code_query (trim raw) = None"
    using a by (simp add: re_code_bare)
  show "o_trace (handleChat translate ratio mem tm player raw) =
        [Console (ChatLine tm (trim player) (trim raw))]"
    by (simp add: handleChat_rest [OF ntl nq ntm] autoTranslate_command [OF c])
  show "o_memory (handleChat translate ratio mem tm player raw) = mem"
    using c by (simp add: handleChat_memory)
next
  assume b: "re_code_query (trim raw) = Some q \<and> normalizeQueryLoose (trim q) = []"
  then have q: "re_code_query (trim raw) = Some q" and n: "normalizeQueryLoose (trim q) = []"
    by simp_all
  have ne: "trim q \<noteq> []" using q by (rule re_code_query_trimmed)
  show "sink_of (o_trace (handleChat translate ratio mem tm player raw)) =
        [(js ''No close language match for '' @ [34] @ trim q @ [34] @
          js ''. Try tm_en, tm_de, tm_fr, tm_es, tm_ru, tm_pt...'',
          tm = Team_CT \<or> tm = Team_T)]"
    unfolding handleChat_code(1) [OF q]
    by (simp add: handleCodeLang_hint [OF q ne n] sink_of_simps writeChatCfg_def)
qed

theorem code_without_query_witness:
  "re_code (trim (js ''code_'')) \<and> length (trim (js ''code_'')) = 5 \<and>
   o_trace (handleChat offline_translate zero_ratio None Team_T (js ''Dan'') (js ''code_'')) =
     [Console (ChatLine Team_T (js ''Dan'') (js ''code_''))] \<and>
   re_code_query (trim (js ''code __'')) = Some (js ''_'') \<and>
   normalizeQueryLoose (trim (js ''_'')) = [] \<and>
   sink_of (o_trace (handleChat offline_translate zero_ratio None Team_T (js ''Dan'')
      (js ''code __''))) =
     [(js ''No close language match for '' @ [34] @ js ''_'' @ [34] @
       js ''. Try tm_en, tm_de, tm_fr, tm_es, tm_ru, tm_pt...'', True)]"
proof -
  have a: "re_code (trim (js ''code_''))" and b: "length (trim (js ''code_'')) = 5"
    and t: "trim (js ''code_'') = js ''code_''" and t1: "trim (js ''Dan'') = js ''Dan''"
    by (simp_all add: eval_defs)
  have q: "re_code_query (trim (js ''code __'')) = Some (js ''_'')"
    by (simp add: re_code_query_def isSep_def eval_defs)
  have t2: "trim (js ''_'') = js ''_''"
    by (simp add: eval_defs)
  have n: "normalizeQueryLoose (trim (js ''_'')) = []"
    by (simp add: normalizeQueryLoose_def toLowerCase_def eval_defs)
  show ?thesis
    using a b q n
      code_without_query [of "js ''code_''" offline_translate zero_ratio None Team_T "js ''Dan''"
        "[]"]
      code_without_query [of "js ''code __''" offline_translate zero_ratio None Team_T
        "js ''Dan''" "js ''_''"]
    by (simp add: t t1 t2)
qed

section \<open>The target of an inline translation is the first token\<close>

lemma smartTranslate_first_call:
  "\<exists>rest. calls_of (fst (smartTranslate translate text toLang)) = (text, None, toLang) # rest"
  by (auto simp: smartTranslate_def Let_def calls_of_simps split: sum.splits js_error.splits prod.splits)

text \<open>
  C10, as stated, fails: the message is split at the space U+0020 only. With a no-break space
  behind \<^verbatim>\<open>tm_de\<close> the first token delimited by white space gives the code
  \<^verbatim>\<open>de\<close>, while the target passed on runs up to the first U+0020.
\<close>

theorem nbsp_token_counterexample:
  "re_tm (js ''tm_de'' @ [0xA0] @ js ''hello friend'') \<and>
   toLowerCase (drop 3 (first_whitespace_token (js ''tm_de'' @ [0xA0] @ js ''hello friend''))) =
     js ''de'' \<and>
   calls_of (fst (handleTm stub_translate True (js ''Bob'')
       (js ''tm_de'' @ [0xA0] @ js ''hello friend''))) =
     [(js ''friend'', None, js ''de'' @ [0xA0] @ js ''hello'')]"
proof -
  let ?m = "js ''tm_de'' @ [0xA0] @ js ''hello friend''"
  have m: "?m = [116, 109, 95, 100, 101, 0xA0, 104, 101, 108, 108, 111, 32, 102, 114, 105, 101, 110, 100]"
    by (simp add: js_def)
  have a: "re_tm ?m"
    unfolding m by (simp add: eval_defs)
  have b: "toLowerCase (drop 3 (first_whitespace_token ?m)) = js ''de''"
    unfolding m by (simp add: first_whitespace_token_def toLowerCase_def eval_defs)
  have "calls_of (fst (handleTm stub_translate True (js ''Bob'') ?m)) =
     [(js ''friend'', None, js ''de'' @ [0xA0] @ js ''hello'')]"
    by (simp add: handleTm_def smartTranslate_def stub_translate_def Let_def calls_of_simps
          writeChatCfg_def CYRILLIC_REGEX_def toLowerCase_def orElse_def eval_defs)
  with a b show ?thesis by simp
qed

text \<open>
  C10, amended. For every message recognized as an inline translation (\<^verbatim>\<open>_tl\<close> and
  \<^verbatim>\<open>code\<close> do not match it) with a text that is not empty, the target language code of the
  first call of the translation capability is the whole first token delimited by the space
  U+0020, without its first three characters, in lower case; the text is what follows the token,
  trimmed. For \<^verbatim>\<open>tm_de,x hello\<close> that target is \<^verbatim>\<open>de,x\<close>, which is not a code of
  \<^verbatim>\<open>[a-z_]\<close> characters.
\<close>

theorem tm_target_token:
  assumes "re_tm msg" and "trim (join_space (tl (split_space msg))) \<noteq> []"
  shows "handleTm translate isTeam sender msg =
           handleTm_with toLowerCase translate isTeam sender msg \<and>
         \<not> re_tl msg \<and> re_code_query msg = None \<and>
         (\<exists>rest. calls_of (fst (handleTm_with lower translate isTeam sender msg)) =
            (trim (join_space (tl (split_space msg))), None,
             lower (drop 3 (takeWhile (\<lambda>c. c \<noteq> 32) msg))) # rest)"
proof (intro conjI)
  show "handleTm translate isTeam sender msg =
           handleTm_with toLowerCase translate isTeam sender msg"
    by (rule handleTm_inst)
  show "\<not> re_tl msg" and "re_code_query msg = None"
    using re_tm_excl [OF assms(1)] by simp_all
  let ?text = "trim (join_space (tl (split_space msg)))"
  obtain tr tr' where h: "handleTm_with lower translate isTeam sender msg = (tr @ tr', Inr True)"
    and tr: "tr = fst (smartTranslate translate ?text (lower (drop 3 (hd (split_space msg)))))"
    and c: "calls_of tr' = []"
    using handleTm_with_text [OF assms] by blast
  obtain rest where "calls_of tr = (?text, None, lower (drop 3 (hd (split_space msg)))) # rest"
    unfolding tr using smartTranslate_first_call by blast
  then have "calls_of (fst (handleTm_with lower translate isTeam sender msg)) =
      (?text, None, lower (drop 3 (takeWhile (\<lambda>c. c \<noteq> 32) msg))) # rest"
    using h c by (simp add: calls_of_simps hd_split_space)
  then show "\<exists>rest. calls_of (fst (handleTm_with lower translate isTeam sender msg)) =
            (?text, None, lower (drop 3 (takeWhile (\<lambda>c. c \<noteq> 32) msg))) # rest"
    by blast
qed

theorem tm_target_token_witness:
  "re_tm (js ''tm_de,x hello'') \<and>
   trim (join_space (tl (split_space (js ''tm_de,x hello'')))) = js ''hello'' \<and>
   (\<exists>rest. calls_of (fst (handleTm stub_translate False (js ''Bob'') (js ''tm_de,x hello''))) =
      (js ''hello'', None, js ''de,x'') # rest) \<and>
   \<not> list_all isCodeChar (js ''de,x'')"
proof -
  have a: "re_tm (js ''tm_de,x hello'')"
    by (simp add: eval_defs)
  have t: "trim (join_space (tl (split_space (js ''tm_de,x hello'')))) = js ''hello''"
    by (simp add: eval_defs)
  have ne: "js ''hello'' \<noteq> []"
    by (simp add: js_def)
  have b: "trim (join_space (tl (split_space (js ''tm_de,x hello'')))) \<noteq> []"
    unfolding t by (rule ne)
  have l: "toLowerCase (drop 3 (takeWhile (\<lambda>c. c \<noteq> 32) (js ''tm_de,x hello''))) = js ''de,x''"
    by (simp add: toLowerCase_def eval_defs)
  have n: "\<not> list_all isCodeChar (js ''de,x'')"
    by (simp add: eval_defs)
  show ?thesis
    using a n tm_target_token [OF a b, of stub_translate False "js ''Bob''" toLowerCase]
    by (simp add: t l)
qed

section \<open>The language resolver meets its specification\<close>

lemma exact_pass_find:
  "exact_pass q cs =
     map_option (\<lambda>c. \<lparr>m_code = c_code c, m_name = c_name c, m_score = Some 100\<rparr>)
       (find (\<lambda>c. q \<in> set (c_aliases c)) cs)"
  by (induction cs) (auto simp: list_ex_iff)

lemma find_first_holds: "find P xs = Some x \<Longrightarrow> P x"
  by (induction xs) (auto split: if_splits)

lemma fuzzy_pass_Some:
  "fuzzy_pass ratio q cs (Some b) =
     (if cs \<noteq> [] \<and> m_score b < Max (set (map (alias_score ratio q) cs))
      then map_option
             (\<lambda>c. \<lparr>m_code = c_code c, m_name = c_name c, m_score = alias_score ratio q c\<rparr>)
             (find (\<lambda>c. alias_score ratio q c = Max (set (map (alias_score ratio q) cs))) cs)
      else Some b)"
proof (induction cs arbitrary: b)
  case Nil
  show ?case by simp
next
  case (Cons c cs)
  let ?s = "alias_score ratio q c"
  let ?new = "\<lparr>m_code = c_code c, m_name = c_name c, m_score = ?s\<rparr>"
  let ?M = "Max (set (map (alias_score ratio q) cs))"
  let ?mk = "\<lambda>c. \<lparr>m_code = c_code c, m_name = c_name c, m_score = alias_score ratio q c\<rparr>"
  show ?case
  proof (cases "cs = []")
    case True
    then show ?thesis by (simp add: Let_def)
  next
    case False
    have M: "Max (set (map (alias_score ratio q) (c # cs))) = max ?s ?M"
      using False by simp
    show ?thesis
    proof (cases "m_score b < ?s")
      case True
      have step: "fuzzy_pass ratio q (c # cs) (Some b) = fuzzy_pass ratio q cs (Some ?new)"
        using True by (simp add: Let_def)
      show ?thesis
      proof (cases "?s < ?M")
        case T2: True
        then have mx: "max ?s ?M = ?M" and ne: "?s \<noteq> ?M"
          using less_imp_le [OF T2] by (simp_all add: max_def)
        have "fuzzy_pass ratio q cs (Some ?new) = map_option ?mk (find (\<lambda>c. alias_score ratio q c = ?M) cs)"
          using T2 False by (simp add: Cons.IH)
        moreover have "m_score b < ?M" using True T2 by (rule less_trans)
        ultimately show ?thesis
          unfolding step M mx using ne by simp
      next
        case F2: False
        then have "?M \<le> ?s" by (simp add: not_less)
        then have mx: "max ?s ?M = ?s" by (rule max.absorb1)
        have "fuzzy_pass ratio q cs (Some ?new) = Some ?new"
          using F2 by (simp add: Cons.IH)
        then show ?thesis
          unfolding step M mx using True by simp
      qed
    next
      case F1: False
      have step: "fuzzy_pass ratio q (c # cs) (Some b) = fuzzy_pass ratio q cs (Some b)"
        using F1 by (simp add: Let_def)
      show ?thesis
      proof (cases "m_score b < ?M")
        case T3: True
        then have lt: "?s < ?M" using F1 by (meson le_less_trans not_le)
        then have mx: "max ?s ?M = ?M" and ne: "?s \<noteq> ?M"
          using less_imp_le [OF lt] by (simp_all add: max_def)
        show ?thesis
          unfolding step M mx using T3 False ne by (simp add: Cons.IH)
      next
        case F3: False
        then have "\<not> m_score b < max ?s ?M" using F1 by (simp add: max_def)
        then show ?thesis
          unfolding step M using F3 by (simp add: Cons.IH)
      qed
    qed
  qed
qed

lemma fuzzy_pass_None:
  assumes "cs \<noteq> []"
  shows "fuzzy_pass ratio q cs None =
     map_option
       (\<lambda>c. \<lparr>m_code = c_code c, m_name = c_name c,
               m_score = Max (set (map (alias_score ratio q) cs))\<rparr>)
       (find (\<lambda>c. alias_score ratio q c = Max (set (map (alias_score ratio q) cs))) cs)"
proof -
  let ?M = "Max (set (map (alias_score ratio q) cs))"
  let ?mk = "\<lambda>c. \<lparr>m_code = c_code c, m_name = c_name c, m_score = alias_score ratio q c\<rparr>"
  from assms obtain c cs' where cs: "cs = c # cs'" by (cases cs) auto
  let ?s = "alias_score ratio q c"
  let ?M' = "Max (set (map (alias_score ratio q) cs'))"
  have start: "fuzzy_pass ratio q cs None = fuzzy_pass ratio q cs' (Some (?mk c))"
    unfolding cs by (simp add: Let_def)
  have a: "fuzzy_pass ratio q cs None = map_option ?mk (find (\<lambda>c. alias_score ratio q c = ?M) cs)"
  proof (cases "cs' = []")
    case True
    then show ?thesis unfolding cs by (simp add: Let_def)
  next
    case False
    have M: "?M = max ?s ?M'" unfolding cs using False by simp
    show ?thesis
    proof (cases "?s < ?M'")
      case True
      then have "max ?s ?M' = ?M'" and "?s \<noteq> ?M'"
        using less_imp_le [OF True] by (simp_all add: max_def)
      then show ?thesis
        unfolding start M using True False by (simp add: fuzzy_pass_Some cs)
    next
      case F: False
      then have "?M' \<le> ?s" by (simp add: not_less)
      then have "max ?s ?M' = ?s" by (rule max.absorb1)
      then show ?thesis
        unfolding start M using F by (simp add: fuzzy_pass_Some cs)
    qed
  qed
  have b: "map_option ?mk (find (\<lambda>c. alias_score ratio q c = ?M) cs) =
           map_option (\<lambda>c. \<lparr>m_code = c_code c, m_name = c_name c, m_score = ?M\<rparr>)
             (find (\<lambda>c. alias_score ratio q c = ?M) cs)"
  proof (cases "find (\<lambda>c. alias_score ratio q c = ?M) cs")
    case None
    then show ?thesis by simp
  next
    case (Some x)
    then have "alias_score ratio q x = ?M" by (rule find_first_holds)
    with Some show ?thesis by simp
  qed
  show ?thesis unfolding a b ..
qed

lemma candidates_nonempty: "buildLangCandidates \<noteq> []"
  by (simp add: buildLangCandidates_def LANG_MAP_def)

lemma math_max_Max:
  "xs \<noteq> [] \<Longrightarrow> math_max xs = Max (Some ` set xs)"
proof (induction xs)
  case Nil
  then show ?case by simp
next
  case (Cons x xs)
  show ?case
  proof (cases "xs = []")
    case True
    then show ?thesis by (simp add: max_def)
  next
    case False
    then show ?thesis using Cons.IH by simp
  qed
qed

lemma set_add_nonempty: "xs \<noteq> [] \<Longrightarrow> foldl set_add xs ys \<noteq> []"
  by (induction ys arbitrary: xs) (auto simp: set_add_def)

lemma candidate_aliases_nonempty: "c \<in> set buildLangCandidates \<Longrightarrow> c_aliases c \<noteq> []"
proof -
  assume "c \<in> set buildLangCandidates"
  then obtain code name where "c = lang_candidate (code, name)"
    by (auto simp: buildLangCandidates_def)
  then show ?thesis
    by (simp add: lang_candidate_def Let_def set_add_nonempty set_add_def)
qed

lemma alias_score_spec:
  "c \<in> set buildLangCandidates \<Longrightarrow> alias_score ratio q c = entry_score_spec ratio q c"
  using candidate_aliases_nonempty [of c]
  by (simp add: alias_score_def entry_score_spec_def math_max_Max image_image)

lemma find_cong_set: "(\<And>x. x \<in> set xs \<Longrightarrow> P x = Q x) \<Longrightarrow> find P xs = find Q xs"
  by (induction xs) auto

text \<open>
  C5. \<^verbatim>\<open>bestLangMatch\<close> normalizes the query and then, on every normalized query, computes
  what the specification says: no match for the empty query; the first catalogue entry with an
  alias equal to the query, with score 100; otherwise the first entry in catalogue order whose
  score, the maximum over its aliases, is the maximum over all entries, unless that maximum is
  below 55.
\<close>

theorem bestLangMatch_refines_spec:
  "bestLangMatch ratio query = bestLangMatchFrom ratio (normalizeQueryLoose query) \<and>
   bestLangMatchFrom ratio q = resolve_language_spec ratio q"
proof
  show "bestLangMatch ratio query = bestLangMatchFrom ratio (normalizeQueryLoose query)"
    by (simp add: bestLangMatch_def)
next
  let ?best = "Max (set (map (alias_score ratio q) buildLangCandidates))"
  let ?sbest = "Max (set (map (entry_score_spec ratio q) buildLangCandidates))"
  have m: "map (alias_score ratio q) buildLangCandidates =
           map (entry_score_spec ratio q) buildLangCandidates"
    by (rule map_cong [OF refl]) (rule alias_score_spec)
  then have b: "?best = ?sbest" by simp
  have f: "find (\<lambda>c. alias_score ratio q c = ?sbest) buildLangCandidates =
           find (\<lambda>c. entry_score_spec ratio q c = ?sbest) buildLangCandidates"
    by (rule find_cong_set) (simp add: alias_score_spec)
  have fz: "fuzzy_pass ratio q buildLangCandidates None =
     map_option (\<lambda>c. \<lparr>m_code = c_code c, m_name = c_name c, m_score = ?sbest\<rparr>)
       (find (\<lambda>c. entry_score_spec ratio q c = ?sbest) buildLangCandidates)"
    using fuzzy_pass_None [OF candidates_nonempty, of ratio q] unfolding b f .
  show "bestLangMatchFrom ratio q = resolve_language_spec ratio q"
    unfolding bestLangMatchFrom_def resolve_language_spec_def Let_def exact_pass_find fz
    by (auto split: option.splits simp: not_le)
qed

lemma first_candidate:
  "lang_candidate (js ''af'', js ''Afrikaans'') =
     \<lparr>c_code = js ''af'', c_name = js ''Afrikaans'', c_aliases = [js ''afrikaans'', js ''af'']\<rparr>"
  by code_simp

lemma candidates_head:
  "buildLangCandidates =
     lang_candidate (js ''af'', js ''Afrikaans'') # map lang_candidate (tl LANG_MAP)"
  by (simp add: buildLangCandidates_def LANG_MAP_def)

theorem bestLangMatch_refines_spec_witness:
  "bestLangMatch zero_ratio (js ''AF'') =
     Some \<lparr>m_code = js ''af'', m_name = js ''Afrikaans'', m_score = Some 100\<rparr> \<and>
   resolve_language_spec zero_ratio (js ''af'') =
     Some \<lparr>m_code = js ''af'', m_name = js ''Afrikaans'', m_score = Some 100\<rparr> \<and>
   bestLangMatch zero_ratio (js ''-(_)-'') = None \<and>
   resolve_language_spec zero_ratio [] = None"
proof -
  have n1: "normalizeQueryLoose (js ''AF'') = js ''af''"
    by code_simp
  have n2: "normalizeQueryLoose (js ''-(_)-'') = []"
    by code_simp
  have ne: "js ''af'' \<noteq> []"
    by (simp add: js_def)
  have e: "bestLangMatchFrom zero_ratio (js ''af'') =
     Some \<lparr>m_code = js ''af'', m_name = js ''Afrikaans'', m_score = Some 100\<rparr>"
    using ne by (simp add: bestLangMatchFrom_def candidates_head first_candidate)
  have z: "bestLangMatchFrom zero_ratio [] = None"
    by (simp add: bestLangMatchFrom_def)
  show ?thesis
    using bestLangMatch_refines_spec [of zero_ratio "js ''AF''" "js ''af''"]
          bestLangMatch_refines_spec [of zero_ratio "js ''-(_)-''" "[]"]
    by (simp add: n1 n2 e z)
qed

end
